theory Spec2Isabelle
  imports Complex_Main
begin

section \<open>Data model\<close>

text \<open>
  The tool layer of \<^verbatim>\<open>video_operations.py\<close> is embedded as state-passing
  functions. A clip is what the media library hands out: the model keeps the attributes
  the tools read (duration, fps, width, height, the audio track) and a token standing
  for the decoded frames. A Python float is a \<open>pyfloat\<close>: a finite value, an infinity
  or NaN, compared as Python compares them (every comparison with NaN is false); the
  rounding of float arithmetic is not modelled, and the tools do no arithmetic on their
  arguments. Python ints are integers, \<^verbatim>\<open>str\<close> is \<open>string\<close>; the one string whose
  characters the code inspects, the \<^verbatim>\<open>text\<close> of \<^verbatim>\<open>add_text_overlay\<close>, is a list
  of Unicode code points.
\<close>

datatype pyfloat = Float real | PosInf | NegInf | NaN

text \<open>\<^verbatim>\<open>a < b\<close>, \<^verbatim>\<open>a <= b\<close> and \<^verbatim>\<open>a >= b\<close> on floats.\<close>

fun flt :: "pyfloat \<Rightarrow> pyfloat \<Rightarrow> bool" where
  "flt NaN b = False"
| "flt a NaN = False"
| "flt (Float x) (Float y) = (x < y)"
| "flt a NegInf = False"
| "flt NegInf b = True"
| "flt PosInf b = False"
| "flt a PosInf = True"

fun fle :: "pyfloat \<Rightarrow> pyfloat \<Rightarrow> bool" where
  "fle NaN b = False"
| "fle a NaN = False"
| "fle (Float x) (Float y) = (x \<le> y)"
| "fle NegInf b = True"
| "fle a PosInf = True"
| "fle a NegInf = False"
| "fle PosInf b = False"

definition fge :: "pyfloat \<Rightarrow> pyfloat \<Rightarrow> bool" where
  "fge a b = fle b a"

type_synonym unicode = "nat list"

record audio_clip =
  audio_duration :: pyfloat
  audio_fps :: pyfloat
  audio_nchannels :: int

record clip =
  clip_duration :: pyfloat
  clip_fps :: pyfloat
  clip_w :: int
  clip_h :: int
  clip_audio :: "audio_clip option"
  clip_content :: nat

type_synonym frame = nat

text \<open>
  An exception object: \<open>exn_class\<close> is \<^verbatim>\<open>type(e).__name__\<close>, \<open>exn_msg\<close> is
  \<^verbatim>\<open>str(e)\<close>. The failures of the media library, of the store and of the path
  helper are instances of \<^verbatim>\<open>Exception\<close>.
\<close>

datatype exn = Exception (exn_class: string) (exn_msg: string)

text \<open>The argument \<^verbatim>\<open>angle\<close> of \<^verbatim>\<open>rotate_video\<close> is tested with
  \<^verbatim>\<open>isinstance(angle, (int, float))\<close>, so it is kept as a dynamically typed value.\<close>

datatype pyval = PyInt int | PyFloat pyfloat | PyStr string | PyNone

fun isinstance_int_float :: "pyval \<Rightarrow> bool" where
  "isinstance_int_float (PyInt _) = True"
| "isinstance_int_float (PyFloat _) = True"
| "isinstance_int_float _ = False"

fun number_of :: "pyval \<Rightarrow> pyfloat" where
  "number_of (PyInt i) = Float (real_of_int i)"
| "number_of (PyFloat x) = x"
| "number_of _ = Float 0"

record write_kwargs =
  kw_codec :: "string option"
  kw_fps :: "pyfloat option"
  kw_bitrate :: "string option"

definition no_kwargs :: write_kwargs where
  "no_kwargs = \<lparr>kw_codec = None, kw_fps = None, kw_bitrate = None\<rparr>"

text \<open>
  The dictionary \<^verbatim>\<open>info\<close> built by \<^verbatim>\<open>get_video_info\<close>. The entries computed
  with float arithmetic (\<^verbatim>\<open>aspect_ratio\<close>, \<^verbatim>\<open>file_size_mb\<close>,
  \<^verbatim>\<open>total_frames\<close>, \<^verbatim>\<open>average_bitrate_kbps\<close>) and the entries read with
  \<^verbatim>\<open>getattr\<close> from the library's reader objects are left out: no property below
  reads them and none of them changes the control flow.
\<close>

record info =
  info_file_path :: string
  info_filename :: string
  info_duration :: pyfloat
  info_fps :: pyfloat
  info_size :: "int \<times> int"
  info_width :: int
  info_height :: int
  info_has_audio :: bool
  info_audio_duration :: "pyfloat option"
  info_audio_fps :: "pyfloat option"
  info_audio_channels :: "int option"
  info_file_size_bytes :: "nat option"

text \<open>
  The result envelope: the dictionary every tool returns. A key that is absent from the
  dictionary is \<open>None\<close>; \<^verbatim>\<open>success\<close> is always present. The value under
  \<^verbatim>\<open>output_object\<close> is a store reference, or, for \<^verbatim>\<open>extract_frames\<close>, the
  list of frames.
\<close>

datatype output_obj = Ref string | Frames "frame list"

record envelope =
  success :: bool
  output_path :: "string option"
  output_paths :: "string list option"
  output_object :: "output_obj option"
  output_objects :: "string list option"
  video_info :: "info option"
  message :: "string option"
  error :: "string option"
  error_type :: "string option"

definition Envelope :: "bool \<Rightarrow> envelope" where
  "Envelope b = \<lparr>success = b, output_path = None, output_paths = None,
     output_object = None, output_objects = None, video_info = None,
     message = None, error = None, error_type = None\<rparr>"

section \<open>The world: object stores and the record of calls\<close>

text \<open>
  Every call into the media library and every access to an object store leaves an
  event, in order, so that "the library was not invoked" and "the store was not
  touched" are statements about \<open>calls\<close>.
\<close>

datatype event =
    EngineCall string
  | EngineWrite clip string write_kwargs
  | StoreLoad string
  | StoreStore string clip
  | AudioStoreLoad string

record world =
  video_store :: "string \<rightharpoonup> clip"
  audio_store :: "string \<rightharpoonup> audio_clip"
  issued :: nat
  calls :: "event list"
  error_log :: "string list"

type_synonym 'a prog = "world \<Rightarrow> (exn + 'a) \<times> world"

definition pret :: "'a \<Rightarrow> 'a prog" where
  "pret x w = (Inr x, w)"

definition pbind :: "'a prog \<Rightarrow> ('a \<Rightarrow> 'b prog) \<Rightarrow> 'b prog" where
  "pbind m f w = (case m w of (Inl e, w1) \<Rightarrow> (Inl e, w1) | (Inr x, w1) \<Rightarrow> f x w1)"

text \<open>\<^verbatim>\<open>try: m except Exception as e: h(e)\<close>\<close>

definition try_except :: "'a prog \<Rightarrow> (exn \<Rightarrow> 'a prog) \<Rightarrow> 'a prog" where
  "try_except m h w = (case m w of (Inl e, w1) \<Rightarrow> h e w1 | (Inr x, w1) \<Rightarrow> (Inr x, w1))"

text \<open>A call of a library function: its outcome, and the event.\<close>

definition engine_call :: "string \<Rightarrow> exn + 'a \<Rightarrow> 'a prog" where
  "engine_call name r w = (r, w\<lparr>calls := calls w @ [EngineCall name]\<rparr>)"

definition logger_error :: "string \<Rightarrow> unit prog" where
  "logger_error s w = (Inr (), w\<lparr>error_log := error_log w @ [s]\<rparr>)"

subsection \<open>Python's \<^verbatim>\<open>str(int)\<close>, \<^verbatim>\<open>os.path\<close> and \<^verbatim>\<open>str.strip\<close>\<close>

definition digit_char :: "nat \<Rightarrow> char" where
  "digit_char d = ''0123456789'' ! d"

function str_nat :: "nat \<Rightarrow> string" where
  "str_nat n = (if n < 10 then [digit_char n] else str_nat (n div 10) @ [digit_char (n mod 10)])"
  by pat_completeness auto
termination
  by (relation "measure id") auto

declare str_nat.simps [simp del]

text \<open>\<^verbatim>\<open>f"{i:04d}"\<close> for \<open>i \<ge> 0\<close>: zero-padded to four digits.\<close>

definition format_04d :: "nat \<Rightarrow> string" where
  "format_04d i = replicate (4 - length (str_nat i)) (CHR ''0'') @ str_nat i"

text \<open>\<^verbatim>\<open>os.path.join(a, b)\<close> on POSIX: an absolute \<open>b\<close> discards \<open>a\<close>.\<close>

definition os_path_join :: "string \<Rightarrow> string \<Rightarrow> string" where
  "os_path_join a b =
     (if b \<noteq> [] \<and> hd b = CHR ''/'' then b
      else if a = [] \<or> last a = CHR ''/'' then a @ b
      else a @ ''/'' @ b)"

text \<open>\<^verbatim>\<open>os.path.basename(p)\<close> on POSIX: what follows the last slash.\<close>

definition os_path_basename :: "string \<Rightarrow> string" where
  "os_path_basename p = rev (takeWhile (\<lambda>c. c \<noteq> CHR ''/'') (rev p))"

text \<open>
  \<^verbatim>\<open>str.isspace\<close> on one character, by code point, and \<^verbatim>\<open>str.strip()\<close>, which
  removes such characters from both ends.
\<close>

definition py_isspace :: "nat \<Rightarrow> bool" where
  "py_isspace c = ((0x09 \<le> c \<and> c \<le> 0x0D) \<or> (0x1C \<le> c \<and> c \<le> 0x20) \<or> c = 0x85 \<or> c = 0xA0 \<or>
                   c = 0x1680 \<or> (0x2000 \<le> c \<and> c \<le> 0x200A) \<or> c = 0x2028 \<or> c = 0x2029 \<or>
                   c = 0x202F \<or> c = 0x205F \<or> c = 0x3000)"

definition py_strip :: "unicode \<Rightarrow> unicode" where
  "py_strip s = rev (dropWhile py_isspace (rev (dropWhile py_isspace s)))"

section \<open>The collaborators\<close>

text \<open>
  The media library (moviepy, imageio), the operating system and the path helper
  \<^verbatim>\<open>get_output_path\<close> of \<^verbatim>\<open>utils.py\<close> are parameters of the model: a record of
  functions, each returning the exception it raises or its result. Within one tool call
  the outcome of a library function depends on its arguments only.
  \<open>iter_frames\<close> is a generator: it yields a list of frames and then either stops or
  raises. \<open>getsize\<close> raises nothing but \<^verbatim>\<open>OSError\<close>, which is \<open>None\<close>.
\<close>

record engine =
  get_output_path :: "string \<Rightarrow> exn + string"
  VideoFileClip :: "string \<Rightarrow> exn + clip"
  AudioFileClip :: "string \<Rightarrow> exn + audio_clip"
  close :: "clip \<Rightarrow> exn + unit"
  getsize :: "string \<Rightarrow> nat option"
  subclip :: "clip \<Rightarrow> pyfloat \<Rightarrow> pyfloat \<Rightarrow> exn + clip"
  concatenate_videoclips :: "clip list \<Rightarrow> exn + clip"
  resize :: "clip \<Rightarrow> int list \<Rightarrow> exn + clip"
  crop :: "clip \<Rightarrow> int \<Rightarrow> int \<Rightarrow> int \<Rightarrow> int \<Rightarrow> exn + clip"
  rotate_fx :: "clip \<Rightarrow> pyfloat \<Rightarrow> exn + clip"
  speedx :: "clip \<Rightarrow> pyfloat \<Rightarrow> exn + clip"
  set_audio :: "clip \<Rightarrow> audio_clip \<Rightarrow> exn + clip"
  fadein :: "clip \<Rightarrow> pyfloat \<Rightarrow> exn + clip"
  fadeout :: "clip \<Rightarrow> pyfloat \<Rightarrow> exn + clip"
  change_settings :: "string \<Rightarrow> exn + unit"
  TextClip :: "unicode \<Rightarrow> int \<Rightarrow> string \<Rightarrow> exn + clip"
  ImageClip :: "string \<Rightarrow> exn + clip"
  set_position :: "clip \<Rightarrow> int \<times> int \<Rightarrow> exn + clip"
  set_duration :: "clip \<Rightarrow> pyfloat \<Rightarrow> exn + clip"
  set_opacity :: "clip \<Rightarrow> pyfloat \<Rightarrow> exn + clip"
  CompositeVideoClip :: "clip list \<Rightarrow> exn + clip"
  blackwhite :: "clip \<Rightarrow> exn + clip"
  mirror_x :: "clip \<Rightarrow> exn + clip"
  ImageSequenceClip :: "string \<Rightarrow> int \<Rightarrow> exn + clip"
  iter_frames :: "clip \<Rightarrow> int \<Rightarrow> frame list \<times> exn option"
  makedirs :: "string \<Rightarrow> exn + unit"
  imwrite :: "string \<Rightarrow> frame \<Rightarrow> exn + unit"
  write_videofile :: "clip \<Rightarrow> string \<Rightarrow> write_kwargs \<Rightarrow> exn + unit"

text \<open>A call outside the media library and the stores (path helper, \<^verbatim>\<open>os\<close>).\<close>

definition os_call :: "exn + 'a \<Rightarrow> 'a prog" where
  "os_call r w = (r, w)"

definition write_videofile_call :: "engine \<Rightarrow> clip \<Rightarrow> string \<Rightarrow> write_kwargs \<Rightarrow> unit prog" where
  "write_videofile_call eng c path kw w =
     (write_videofile eng c path kw, w\<lparr>calls := calls w @ [EngineWrite c path kw]\<rparr>)"

subsection \<open>The object stores\<close>

text \<open>
  Modelled from the spec: \<^verbatim>\<open>VideoStore\<close> and \<^verbatim>\<open>AudioStore\<close> are classes of
  \<^verbatim>\<open>utils.py\<close>, which is not among the sources. The spec (4.1): \<^verbatim>\<open>store(clip)\<close>
  registers the clip under a freshly generated unique reference and never fails;
  \<^verbatim>\<open>load(identifier)\<close> returns the cached clip when the identifier is a known
  reference, and otherwise asks the media library to open the identifier as a path,
  returning that clip without caching it, or failing as the library fails. The fresh
  reference is the number of references issued so far, printed after a fixed prefix.
\<close>

definition new_ref :: "nat \<Rightarrow> string" where
  "new_ref n = ''ref_'' @ str_nat n"

definition VideoStore_store :: "clip \<Rightarrow> string prog" where
  "VideoStore_store c w =
     (let r = new_ref (issued w) in
      (Inr r, w\<lparr>video_store := (video_store w)(r \<mapsto> c),
                 issued := Suc (issued w),
                 calls := calls w @ [StoreStore r c]\<rparr>))"

definition VideoStore_load :: "engine \<Rightarrow> string \<Rightarrow> clip prog" where
  "VideoStore_load eng ident w =
     (let w1 = w\<lparr>calls := calls w @ [StoreLoad ident]\<rparr> in
      case video_store w ident of
        Some c \<Rightarrow> (Inr c, w1)
      | None \<Rightarrow> engine_call ''VideoFileClip'' (VideoFileClip eng ident) w1)"

definition AudioStore_load :: "engine \<Rightarrow> string \<Rightarrow> audio_clip prog" where
  "AudioStore_load eng ident w =
     (let w1 = w\<lparr>calls := calls w @ [AudioStoreLoad ident]\<rparr> in
      case audio_store w ident of
        Some a \<Rightarrow> (Inr a, w1)
      | None \<Rightarrow> engine_call ''AudioFileClip'' (AudioFileClip eng ident) w1)"

section \<open>The tools\<close>

text \<open>
  Each tool is \<^verbatim>\<open>try: ... except Exception as e: ...\<close>. The body of the
  \<^verbatim>\<open>try\<close> is the definition with suffix \<open>_try\<close>; the handler logs and returns
  the failure dictionary.
\<close>

definition except_Exception :: "string \<Rightarrow> string option \<Rightarrow> exn \<Rightarrow> envelope prog" where
  "except_Exception log_text msg e =
     pbind (logger_error (log_text @ '': '' @ exn_msg e)) (\<lambda>_.
     pret ((Envelope False)\<lparr>error := Some (exn_msg e), error_type := Some (exn_class e),
                              message := msg\<rparr>))"

definition get_video_info_try :: "engine \<Rightarrow> string \<Rightarrow> envelope prog" where
  "get_video_info_try eng video_path =
     pbind (engine_call ''VideoFileClip'' (VideoFileClip eng video_path)) (\<lambda>video.
     let file_size = getsize eng video_path;
         inf = \<lparr>info_file_path = video_path,
                info_filename = os_path_basename video_path,
                info_duration = clip_duration video,
                info_fps = clip_fps video,
                info_size = (clip_w video, clip_h video),
                info_width = clip_w video,
                info_height = clip_h video,
                info_has_audio = (clip_audio video \<noteq> None),
                info_audio_duration = map_option audio_duration (clip_audio video),
                info_audio_fps = map_option audio_fps (clip_audio video),
                info_audio_channels = map_option audio_nchannels (clip_audio video),
                info_file_size_bytes = file_size\<rparr>
     in pbind (engine_call ''close'' (close eng video)) (\<lambda>_.
        pret ((Envelope True)\<lparr>video_info := Some inf\<rparr>)))"

text \<open>
  The \<^verbatim>\<open>finally\<close> clause closes \<^verbatim>\<open>video\<close> once more when the name is bound, that
  is when \<^verbatim>\<open>VideoFileClip(video_path)\<close> returned, and swallows whatever that raises.
\<close>

definition get_video_info :: "engine \<Rightarrow> string \<Rightarrow> envelope prog" where
  "get_video_info eng video_path w =
     (case try_except (get_video_info_try eng video_path)
             (\<lambda>e. pbind (logger_error (''Error getting video info for '' @ video_path @ '': '' @ exn_msg e)) (\<lambda>_.
                   pret ((Envelope False)\<lparr>error := Some (exn_msg e), error_type := Some (exn_class e)\<rparr>))) w of
        (r, w1) \<Rightarrow>
          (case VideoFileClip eng video_path of
             Inr video \<Rightarrow> (r, snd (engine_call ''close'' (close eng video) w1))
           | Inl _ \<Rightarrow> (r, w1)))"

definition trim_video_try :: "engine \<Rightarrow> string \<Rightarrow> pyfloat \<Rightarrow> pyfloat \<Rightarrow> string \<Rightarrow> bool \<Rightarrow> envelope prog" where
  "trim_video_try eng video_path start_time end_time output_name return_path =
     (if flt start_time (Float 0) \<or> flt end_time (Float 0) then
        pret ((Envelope False)\<lparr>error := Some ''Start and end times must be positive'',
                                 message := Some ''Invalid time parameters''\<rparr>)
      else if fge start_time end_time then
        pret ((Envelope False)\<lparr>error := Some ''Start time must be less than end time'',
                                 message := Some ''Invalid time range''\<rparr>)
      else
        pbind (os_call (get_output_path eng output_name)) (\<lambda>out_path.
        pbind (VideoStore_load eng video_path) (\<lambda>video.
        pbind (engine_call ''subclip'' (subclip eng video start_time end_time)) (\<lambda>trimmed_video.
        if return_path then
          pbind (write_videofile_call eng trimmed_video out_path no_kwargs) (\<lambda>_.
          pret ((Envelope True)\<lparr>output_path := Some out_path,
                                  message := Some ''Video trimmed successfully''\<rparr>))
        else
          pbind (VideoStore_store trimmed_video) (\<lambda>ref.
          pret ((Envelope True)\<lparr>output_object := Some (Ref ref)\<rparr>))))))"

definition trim_video :: "engine \<Rightarrow> string \<Rightarrow> pyfloat \<Rightarrow> pyfloat \<Rightarrow> string \<Rightarrow> bool \<Rightarrow> envelope prog" where
  "trim_video eng video_path start_time end_time output_name return_path =
     try_except (trim_video_try eng video_path start_time end_time output_name return_path)
       (except_Exception (''Error trimming video '' @ video_path) (Some ''Error trimming video''))"

definition merge_video_try :: "engine \<Rightarrow> string \<Rightarrow> string \<Rightarrow> string \<Rightarrow> bool \<Rightarrow> envelope prog" where
  "merge_video_try eng video_path video_path2 output_name return_path =
     pbind (os_call (get_output_path eng output_name)) (\<lambda>out_path.
     pbind (VideoStore_load eng video_path) (\<lambda>video1.
     pbind (VideoStore_load eng video_path2) (\<lambda>video2.
     pbind (engine_call ''concatenate_videoclips'' (concatenate_videoclips eng [video1, video2])) (\<lambda>merged_video.
     if return_path then
       pbind (write_videofile_call eng merged_video out_path no_kwargs) (\<lambda>_.
       pret ((Envelope True)\<lparr>output_path := Some out_path,
                               message := Some ''Videos merged successfully''\<rparr>))
     else
       pbind (VideoStore_store merged_video) (\<lambda>ref.
       pret ((Envelope True)\<lparr>output_object := Some (Ref ref),
                               message := Some ''Videos merged successfully''\<rparr>))))))"

definition merge_video :: "engine \<Rightarrow> string \<Rightarrow> string \<Rightarrow> string \<Rightarrow> bool \<Rightarrow> envelope prog" where
  "merge_video eng video_path video_path2 output_name return_path =
     try_except (merge_video_try eng video_path video_path2 output_name return_path)
       (except_Exception (''Error merging videos '' @ video_path @ '' and '' @ video_path2)
          (Some ''Error merging videos''))"

definition resize_video_try :: "engine \<Rightarrow> string \<Rightarrow> int list \<Rightarrow> string \<Rightarrow> bool \<Rightarrow> envelope prog" where
  "resize_video_try eng video_path newsize output_name return_path =
     (if newsize = [] \<or> length newsize \<noteq> 2 \<or> newsize ! 0 \<le> 0 \<or> newsize ! 1 \<le> 0 then
        pret ((Envelope False)\<lparr>error := Some ''Size must be a tuple of two positive integers (width, height)'',
                                 message := Some ''Invalid size parameters''\<rparr>)
      else
        pbind (os_call (get_output_path eng output_name)) (\<lambda>out_path.
        pbind (VideoStore_load eng video_path) (\<lambda>video.
        pbind (engine_call ''resize'' (resize eng video newsize)) (\<lambda>resized_video.
        if return_path then
          pbind (write_videofile_call eng resized_video out_path no_kwargs) (\<lambda>_.
          pret ((Envelope True)\<lparr>output_path := Some out_path,
                                  message := Some ''Video resized successfully''\<rparr>))
        else
          pbind (VideoStore_store resized_video) (\<lambda>ref.
          pret ((Envelope True)\<lparr>output_object := Some (Ref ref)\<rparr>))))))"

definition resize_video :: "engine \<Rightarrow> string \<Rightarrow> int list \<Rightarrow> string \<Rightarrow> bool \<Rightarrow> envelope prog" where
  "resize_video eng video_path newsize output_name return_path =
     try_except (resize_video_try eng video_path newsize output_name return_path)
       (except_Exception (''Error resizing video '' @ video_path) (Some ''Error resizing video''))"

definition crop_video_try :: "engine \<Rightarrow> string \<Rightarrow> int \<Rightarrow> int \<Rightarrow> int \<Rightarrow> int \<Rightarrow> string \<Rightarrow> bool \<Rightarrow> envelope prog" where
  "crop_video_try eng video_path x1 y1 x2 y2 output_name return_path =
     (if x1 < 0 \<or> y1 < 0 \<or> x2 \<le> x1 \<or> y2 \<le> y1 then
        pret ((Envelope False)\<lparr>error := Some ''Invalid crop coordinates. x2 > x1 and y2 > y1, all values must be non-negative'',
                                 message := Some ''Invalid crop parameters''\<rparr>)
      else
        pbind (os_call (get_output_path eng output_name)) (\<lambda>out_path.
        pbind (VideoStore_load eng video_path) (\<lambda>video.
        pbind (engine_call ''crop'' (crop eng video x1 y1 x2 y2)) (\<lambda>cropped_video.
        if return_path then
          pbind (write_videofile_call eng cropped_video out_path no_kwargs) (\<lambda>_.
          pret ((Envelope True)\<lparr>output_path := Some out_path,
                                  message := Some ''Video cropped successfully''\<rparr>))
        else
          pbind (VideoStore_store cropped_video) (\<lambda>ref.
          pret ((Envelope True)\<lparr>output_object := Some (Ref ref)\<rparr>))))))"

definition crop_video :: "engine \<Rightarrow> string \<Rightarrow> int \<Rightarrow> int \<Rightarrow> int \<Rightarrow> int \<Rightarrow> string \<Rightarrow> bool \<Rightarrow> envelope prog" where
  "crop_video eng video_path x1 y1 x2 y2 output_name return_path =
     try_except (crop_video_try eng video_path x1 y1 x2 y2 output_name return_path)
       (except_Exception (''Error cropping video '' @ video_path) (Some ''Error cropping video''))"

definition rotate_video_try :: "engine \<Rightarrow> string \<Rightarrow> pyval \<Rightarrow> string \<Rightarrow> bool \<Rightarrow> envelope prog" where
  "rotate_video_try eng video_path angle output_name return_path =
     (if \<not> isinstance_int_float angle then
        pret ((Envelope False)\<lparr>error := Some ''Angle must be a number'',
                                 message := Some ''Invalid angle parameter''\<rparr>)
      else
        pbind (os_call (get_output_path eng output_name)) (\<lambda>out_path.
        pbind (VideoStore_load eng video_path) (\<lambda>video.
        pbind (engine_call ''rotate'' (rotate_fx eng video (number_of angle))) (\<lambda>rotated_video.
        if return_path then
          pbind (write_videofile_call eng rotated_video out_path no_kwargs) (\<lambda>_.
          pret ((Envelope True)\<lparr>output_path := Some out_path,
                                  message := Some ''Video rotated successfully''\<rparr>))
        else
          pbind (VideoStore_store rotated_video) (\<lambda>ref.
          pret ((Envelope True)\<lparr>output_object := Some (Ref ref)\<rparr>))))))"

definition rotate_video :: "engine \<Rightarrow> string \<Rightarrow> pyval \<Rightarrow> string \<Rightarrow> bool \<Rightarrow> envelope prog" where
  "rotate_video eng video_path angle output_name return_path =
     try_except (rotate_video_try eng video_path angle output_name return_path)
       (except_Exception (''Error rotating video '' @ video_path) (Some ''Error rotating video''))"

definition speed_up_video_try :: "engine \<Rightarrow> string \<Rightarrow> pyfloat \<Rightarrow> string \<Rightarrow> bool \<Rightarrow> envelope prog" where
  "speed_up_video_try eng video_path speed output_name return_path =
     (if fle speed (Float 0) then
        pret ((Envelope False)\<lparr>error := Some ''Speed must be positive (e.g., 2.0 for 2x speed)'',
                                 message := Some ''Invalid speed parameter''\<rparr>)
      else
        pbind (os_call (get_output_path eng output_name)) (\<lambda>out_path.
        pbind (VideoStore_load eng video_path) (\<lambda>video.
        pbind (engine_call ''speedx'' (speedx eng video speed)) (\<lambda>sped_up_video.
        if return_path then
          pbind (write_videofile_call eng sped_up_video out_path no_kwargs) (\<lambda>_.
          pret ((Envelope True)\<lparr>output_path := Some out_path,
                                  message := Some ''Video speed changed successfully''\<rparr>))
        else
          pbind (VideoStore_store sped_up_video) (\<lambda>ref.
          pret ((Envelope True)\<lparr>output_object := Some (Ref ref)\<rparr>))))))"

definition speed_up_video :: "engine \<Rightarrow> string \<Rightarrow> pyfloat \<Rightarrow> string \<Rightarrow> bool \<Rightarrow> envelope prog" where
  "speed_up_video eng video_path speed output_name return_path =
     try_except (speed_up_video_try eng video_path speed output_name return_path)
       (except_Exception (''Error changing video speed '' @ video_path) (Some ''Error changing video speed''))"

definition add_audio_try :: "engine \<Rightarrow> string \<Rightarrow> string \<Rightarrow> string \<Rightarrow> bool \<Rightarrow> envelope prog" where
  "add_audio_try eng video_path audio_path output_name return_path =
     pbind (os_call (get_output_path eng output_name)) (\<lambda>out_path.
     pbind (VideoStore_load eng video_path) (\<lambda>video.
     pbind (AudioStore_load eng audio_path) (\<lambda>audio.
     pbind (engine_call ''set_audio'' (set_audio eng video audio)) (\<lambda>new_video.
     if return_path then
       pbind (write_videofile_call eng new_video out_path no_kwargs) (\<lambda>_.
       pret ((Envelope True)\<lparr>output_path := Some out_path,
                               message := Some ''Audio added successfully''\<rparr>))
     else
       pbind (VideoStore_store new_video) (\<lambda>ref.
       pret ((Envelope True)\<lparr>output_object := Some (Ref ref)\<rparr>))))))"

definition add_audio :: "engine \<Rightarrow> string \<Rightarrow> string \<Rightarrow> string \<Rightarrow> bool \<Rightarrow> envelope prog" where
  "add_audio eng video_path audio_path output_name return_path =
     try_except (add_audio_try eng video_path audio_path output_name return_path)
       (except_Exception (''Error adding audio to video '' @ video_path) (Some ''Error adding audio to video''))"

definition fadein_video_try :: "engine \<Rightarrow> string \<Rightarrow> pyfloat \<Rightarrow> string \<Rightarrow> bool \<Rightarrow> envelope prog" where
  "fadein_video_try eng video_path fade_duration output_name return_path =
     (if fle fade_duration (Float 0) then
        pret ((Envelope False)\<lparr>error := Some ''Fade duration must be positive'',
                                 message := Some ''Invalid fade duration parameter''\<rparr>)
      else
        pbind (os_call (get_output_path eng output_name)) (\<lambda>out_path.
        pbind (VideoStore_load eng video_path) (\<lambda>video.
        pbind (engine_call ''fadein'' (fadein eng video fade_duration)) (\<lambda>faded_video.
        if return_path then
          pbind (write_videofile_call eng faded_video out_path no_kwargs) (\<lambda>_.
          pret ((Envelope True)\<lparr>output_path := Some out_path,
                                  message := Some ''Fade in effect added successfully''\<rparr>))
        else
          pbind (VideoStore_store faded_video) (\<lambda>ref.
          pret ((Envelope True)\<lparr>output_object := Some (Ref ref)\<rparr>))))))"

definition fadein_video :: "engine \<Rightarrow> string \<Rightarrow> pyfloat \<Rightarrow> string \<Rightarrow> bool \<Rightarrow> envelope prog" where
  "fadein_video eng video_path fade_duration output_name return_path =
     try_except (fadein_video_try eng video_path fade_duration output_name return_path)
       (except_Exception (''Error adding fade in effect to video '' @ video_path)
          (Some ''Error adding fade in effect''))"

definition fadeout_video_try :: "engine \<Rightarrow> string \<Rightarrow> pyfloat \<Rightarrow> string \<Rightarrow> bool \<Rightarrow> envelope prog" where
  "fadeout_video_try eng video_path fade_duration output_name return_path =
     (if fle fade_duration (Float 0) then
        pret ((Envelope False)\<lparr>error := Some ''Fade duration must be positive'',
                                 message := Some ''Invalid fade duration parameter''\<rparr>)
      else
        pbind (os_call (get_output_path eng output_name)) (\<lambda>out_path.
        pbind (VideoStore_load eng video_path) (\<lambda>video.
        pbind (engine_call ''fadeout'' (fadeout eng video fade_duration)) (\<lambda>faded_video.
        if return_path then
          pbind (write_videofile_call eng faded_video out_path no_kwargs) (\<lambda>_.
          pret ((Envelope True)\<lparr>output_path := Some out_path,
                                  message := Some ''Fade out effect added successfully''\<rparr>))
        else
          pbind (VideoStore_store faded_video) (\<lambda>ref.
          pret ((Envelope True)\<lparr>output_object := Some (Ref ref)\<rparr>))))))"

definition fadeout_video :: "engine \<Rightarrow> string \<Rightarrow> pyfloat \<Rightarrow> string \<Rightarrow> bool \<Rightarrow> envelope prog" where
  "fadeout_video eng video_path fade_duration output_name return_path =
     try_except (fadeout_video_try eng video_path fade_duration output_name return_path)
       (except_Exception (''Error adding fade out effect to video '' @ video_path)
          (Some ''Error adding fade out effect''))"

definition add_text_overlay_try ::
  "engine \<Rightarrow> string \<Rightarrow> unicode \<Rightarrow> int \<Rightarrow> int \<Rightarrow> int \<Rightarrow> string \<Rightarrow> pyfloat \<Rightarrow> string \<Rightarrow> bool \<Rightarrow> string \<Rightarrow> envelope prog" where
  "add_text_overlay_try eng video_path text_arg x y font_size color duration output_name return_path path_of_imagemagick =
     (if text_arg = [] \<or> py_strip text_arg = [] then
        pret ((Envelope False)\<lparr>error := Some ''Text cannot be empty'',
                                 message := Some ''Invalid text parameter''\<rparr>)
      else if font_size \<le> 0 then
        pret ((Envelope False)\<lparr>error := Some ''Font size must be positive'',
                                 message := Some ''Invalid font size parameter''\<rparr>)
      else if fle duration (Float 0) then
        pret ((Envelope False)\<lparr>error := Some ''Duration must be positive'',
                                 message := Some ''Invalid duration parameter''\<rparr>)
      else
        pbind (os_call (get_output_path eng output_name)) (\<lambda>out_path.
        pbind (VideoStore_load eng video_path) (\<lambda>video.
        pbind (engine_call ''change_settings'' (change_settings eng path_of_imagemagick)) (\<lambda>_.
        pbind (engine_call ''TextClip'' (TextClip eng text_arg font_size color)) (\<lambda>text_clip.
        pbind (engine_call ''set_position'' (set_position eng text_clip (x, y))) (\<lambda>text_clip1.
        pbind (engine_call ''set_duration'' (set_duration eng text_clip1 duration)) (\<lambda>text_clip2.
        pbind (engine_call ''CompositeVideoClip'' (CompositeVideoClip eng [video, text_clip2])) (\<lambda>final_video.
        if return_path then
          pbind (write_videofile_call eng final_video out_path
                   (no_kwargs\<lparr>kw_fps := Some (clip_fps final_video)\<rparr>)) (\<lambda>_.
          pret ((Envelope True)\<lparr>output_path := Some out_path,
                                  message := Some ''Text overlay added successfully''\<rparr>))
        else
          pbind (VideoStore_store final_video) (\<lambda>ref.
          pret ((Envelope True)\<lparr>output_object := Some (Ref ref),
                                  message := Some ''Text overlay added successfully''\<rparr>))))))))))"

definition add_text_overlay ::
  "engine \<Rightarrow> string \<Rightarrow> unicode \<Rightarrow> int \<Rightarrow> int \<Rightarrow> int \<Rightarrow> string \<Rightarrow> pyfloat \<Rightarrow> string \<Rightarrow> bool \<Rightarrow> string \<Rightarrow> envelope prog" where
  "add_text_overlay eng video_path text_arg x y font_size color duration output_name return_path path_of_imagemagick =
     try_except (add_text_overlay_try eng video_path text_arg x y font_size color duration output_name return_path path_of_imagemagick)
       (except_Exception (''Error adding text overlay to video '' @ video_path)
          (Some ''Error adding text overlay. Make sure ImageMagick is installed and path is correct.''))"

definition add_image_overlay_try ::
  "engine \<Rightarrow> string \<Rightarrow> string \<Rightarrow> int \<Rightarrow> int \<Rightarrow> pyfloat \<Rightarrow> string \<Rightarrow> bool \<Rightarrow> envelope prog" where
  "add_image_overlay_try eng video_path image_path x y duration output_name return_path =
     (if fle duration (Float 0) then
        pret ((Envelope False)\<lparr>error := Some ''Duration must be positive'',
                                 message := Some ''Invalid duration parameter''\<rparr>)
      else
        pbind (os_call (get_output_path eng output_name)) (\<lambda>out_path.
        pbind (VideoStore_load eng video_path) (\<lambda>video.
        pbind (engine_call ''ImageClip'' (ImageClip eng image_path)) (\<lambda>logo.
        pbind (engine_call ''set_duration'' (set_duration eng logo duration)) (\<lambda>logo1.
        pbind (engine_call ''set_position'' (set_position eng logo1 (x, y))) (\<lambda>logo2.
        pbind (engine_call ''CompositeVideoClip'' (CompositeVideoClip eng [video, logo2])) (\<lambda>final_video.
        if return_path then
          pbind (write_videofile_call eng final_video out_path no_kwargs) (\<lambda>_.
          pret ((Envelope True)\<lparr>output_path := Some out_path,
                                  message := Some ''Image overlay added successfully''\<rparr>))
        else
          pbind (VideoStore_store final_video) (\<lambda>ref.
          pret ((Envelope True)\<lparr>output_object := Some (Ref ref)\<rparr>)))))))))"

definition add_image_overlay ::
  "engine \<Rightarrow> string \<Rightarrow> string \<Rightarrow> int \<Rightarrow> int \<Rightarrow> pyfloat \<Rightarrow> string \<Rightarrow> bool \<Rightarrow> envelope prog" where
  "add_image_overlay eng video_path image_path x y duration output_name return_path =
     try_except (add_image_overlay_try eng video_path image_path x y duration output_name return_path)
       (except_Exception (''Error adding image overlay to video '' @ video_path)
          (Some ''Error adding image overlay''))"

definition grayscale_video_try :: "engine \<Rightarrow> string \<Rightarrow> string \<Rightarrow> bool \<Rightarrow> envelope prog" where
  "grayscale_video_try eng video_path output_name return_path =
     pbind (os_call (get_output_path eng output_name)) (\<lambda>out_path.
     pbind (VideoStore_load eng video_path) (\<lambda>video.
     pbind (engine_call ''blackwhite'' (blackwhite eng video)) (\<lambda>gray_video.
     if return_path then
       pbind (write_videofile_call eng gray_video out_path no_kwargs) (\<lambda>_.
       pret ((Envelope True)\<lparr>output_path := Some out_path,
                               message := Some ''Video converted to grayscale successfully''\<rparr>))
     else
       pbind (VideoStore_store gray_video) (\<lambda>ref.
       pret ((Envelope True)\<lparr>output_object := Some (Ref ref)\<rparr>)))))"

definition grayscale_video :: "engine \<Rightarrow> string \<Rightarrow> string \<Rightarrow> bool \<Rightarrow> envelope prog" where
  "grayscale_video eng video_path output_name return_path =
     try_except (grayscale_video_try eng video_path output_name return_path)
       (except_Exception (''Error converting video to grayscale '' @ video_path)
          (Some ''Error converting video to grayscale''))"

definition images_to_video_try :: "engine \<Rightarrow> string \<Rightarrow> int \<Rightarrow> string \<Rightarrow> bool \<Rightarrow> envelope prog" where
  "images_to_video_try eng images_folder_path fps output_name return_path =
     pbind (os_call (get_output_path eng output_name)) (\<lambda>out_path.
     pbind (engine_call ''ImageSequenceClip'' (ImageSequenceClip eng images_folder_path fps)) (\<lambda>seq_clip.
     if return_path then
       pbind (write_videofile_call eng seq_clip out_path no_kwargs) (\<lambda>_.
       pret ((Envelope True)\<lparr>output_path := Some out_path,
                               message := Some ''Video created from images successfully''\<rparr>))
     else
       pbind (VideoStore_store seq_clip) (\<lambda>ref.
       pret ((Envelope True)\<lparr>output_object := Some (Ref ref)\<rparr>))))"

definition images_to_video :: "engine \<Rightarrow> string \<Rightarrow> int \<Rightarrow> string \<Rightarrow> bool \<Rightarrow> envelope prog" where
  "images_to_video eng images_folder_path fps output_name return_path =
     try_except (images_to_video_try eng images_folder_path fps output_name return_path)
       (except_Exception (''Error creating video from images '' @ images_folder_path)
          (Some ''Error creating video from images''))"

text \<open>
  The loop of \<^verbatim>\<open>extract_frames\<close> over \<^verbatim>\<open>enumerate(subclip.iter_frames(fps=fps))\<close>:
  each frame the generator yields is written before the next one is asked for, so
  the frames yielded before the generator raises are written.
\<close>

fun write_frames :: "engine \<Rightarrow> string \<Rightarrow> nat \<Rightarrow> frame list \<Rightarrow> unit prog" where
  "write_frames eng folder i [] = pret ()"
| "write_frames eng folder i (fr # frs) =
     pbind (engine_call ''imwrite''
              (imwrite eng (os_path_join folder (''frame_'' @ format_04d i @ ''.png'')) fr)) (\<lambda>_.
     write_frames eng folder (Suc i) frs)"

definition generator_end :: "exn option \<Rightarrow> unit prog" where
  "generator_end r w = (case r of None \<Rightarrow> (Inr (), w) | Some e \<Rightarrow> (Inl e, w))"

definition extract_frames_try ::
  "engine \<Rightarrow> string \<Rightarrow> pyfloat \<Rightarrow> pyfloat \<Rightarrow> int \<Rightarrow> string \<Rightarrow> bool \<Rightarrow> envelope prog" where
  "extract_frames_try eng video_path start_time end_time fps output_folder_name return_path =
     pbind (VideoStore_load eng video_path) (\<lambda>video.
     pbind (engine_call ''subclip'' (subclip eng video start_time end_time)) (\<lambda>sub.
     if return_path then
       pbind (os_call (makedirs eng output_folder_name)) (\<lambda>_.
       pbind (engine_call ''iter_frames'' (Inr (iter_frames eng sub fps))) (\<lambda>gen.
       pbind (write_frames eng output_folder_name 0 (fst gen)) (\<lambda>_.
       pbind (generator_end (snd gen)) (\<lambda>_.
       pret ((Envelope True)\<lparr>output_path := Some output_folder_name,
                               message := Some ''Frames extracted successfully''\<rparr>)))))
     else
       pbind (engine_call ''iter_frames'' (Inr (iter_frames eng sub fps))) (\<lambda>gen.
       pbind (generator_end (snd gen)) (\<lambda>_.
       pret ((Envelope True)\<lparr>output_object := Some (Frames (fst gen)),
                               message := Some ''Frames extracted to memory''\<rparr>)))))"

definition extract_frames ::
  "engine \<Rightarrow> string \<Rightarrow> pyfloat \<Rightarrow> pyfloat \<Rightarrow> int \<Rightarrow> string \<Rightarrow> bool \<Rightarrow> envelope prog" where
  "extract_frames eng video_path start_time end_time fps output_folder_name return_path =
     try_except (extract_frames_try eng video_path start_time end_time fps output_folder_name return_path)
       (except_Exception (''Error extracting frames from video '' @ video_path)
          (Some ''Error extracting frames from video''))"

definition mirror_video_try :: "engine \<Rightarrow> string \<Rightarrow> string \<Rightarrow> bool \<Rightarrow> envelope prog" where
  "mirror_video_try eng video_path output_name return_path =
     pbind (os_call (get_output_path eng output_name)) (\<lambda>out_path.
     pbind (VideoStore_load eng video_path) (\<lambda>video.
     pbind (engine_call ''mirror_x'' (mirror_x eng video)) (\<lambda>mirrored_video.
     if return_path then
       pbind (write_videofile_call eng mirrored_video out_path no_kwargs) (\<lambda>_.
       pret ((Envelope True)\<lparr>output_path := Some out_path,
                               message := Some ''Video mirrored successfully''\<rparr>))
     else
       pbind (VideoStore_store mirrored_video) (\<lambda>ref.
       pret ((Envelope True)\<lparr>output_object := Some (Ref ref)\<rparr>)))))"

definition mirror_video :: "engine \<Rightarrow> string \<Rightarrow> string \<Rightarrow> bool \<Rightarrow> envelope prog" where
  "mirror_video eng video_path output_name return_path =
     try_except (mirror_video_try eng video_path output_name return_path)
       (except_Exception (''Error mirroring video '' @ video_path) (Some ''Error mirroring video''))"

text \<open>
  The three loops of \<^verbatim>\<open>split_video_at_times\<close>: one subclip for each pair of
  neighbours in the list of boundaries (\<^verbatim>\<open>for i in range(len(split_times) - 1)\<close>),
  one file for each segment (numbered from 1), one reference for each segment.
\<close>

fun subclips :: "engine \<Rightarrow> clip \<Rightarrow> pyfloat list \<Rightarrow> clip list prog" where
  "subclips eng video (a # b # rest) =
     pbind (engine_call ''subclip'' (subclip eng video a b)) (\<lambda>segment.
     pbind (subclips eng video (b # rest)) (\<lambda>segments.
     pret (segment # segments)))"
| "subclips eng video _ = pret []"

fun write_segments :: "engine \<Rightarrow> string \<Rightarrow> string \<Rightarrow> nat \<Rightarrow> clip list \<Rightarrow> string list prog" where
  "write_segments eng out_path output_name i [] = pret []"
| "write_segments eng out_path output_name i (segment # segments) =
     (let segment_path = os_path_join out_path (output_name @ ''_part_'' @ str_nat (i + 1) @ ''.mp4'') in
      pbind (write_videofile_call eng segment segment_path no_kwargs) (\<lambda>_.
      pbind (write_segments eng out_path output_name (Suc i) segments) (\<lambda>paths.
      pret (segment_path # paths))))"

fun store_all :: "clip list \<Rightarrow> string list prog" where
  "store_all [] = pret []"
| "store_all (segment # segments) =
     pbind (VideoStore_store segment) (\<lambda>ref.
     pbind (store_all segments) (\<lambda>refs.
     pret (ref # refs)))"

definition split_video_at_times_try ::
  "engine \<Rightarrow> string \<Rightarrow> pyfloat list \<Rightarrow> string \<Rightarrow> bool \<Rightarrow> envelope prog" where
  "split_video_at_times_try eng video_path split_times output_name return_path =
     pbind (os_call (get_output_path eng output_name)) (\<lambda>out_path.
     pbind (VideoStore_load eng video_path) (\<lambda>video.
     pbind (subclips eng video ([Float 0] @ split_times @ [clip_duration video])) (\<lambda>segments.
     if return_path then
       pbind (write_segments eng out_path output_name 0 segments) (\<lambda>paths.
       pret ((Envelope True)\<lparr>output_paths := Some paths,
                               message := Some ''Video split successfully''\<rparr>))
     else
       pbind (store_all segments) (\<lambda>refs.
       pret ((Envelope True)\<lparr>output_objects := Some refs\<rparr>)))))"

definition split_video_at_times ::
  "engine \<Rightarrow> string \<Rightarrow> pyfloat list \<Rightarrow> string \<Rightarrow> bool \<Rightarrow> envelope prog" where
  "split_video_at_times eng video_path split_times output_name return_path =
     try_except (split_video_at_times_try eng video_path split_times output_name return_path)
       (except_Exception (''Error splitting video at times '' @ video_path)
          (Some ''Error splitting video at times''))"

text \<open>\<^verbatim>\<open>if fps:\<close> and \<^verbatim>\<open>if bitrate:\<close> test truthiness: \<^verbatim>\<open>None\<close>, \<open>0\<close> and the
  empty string are false.\<close>

definition convert_kwargs :: "string \<Rightarrow> int option \<Rightarrow> string option \<Rightarrow> write_kwargs" where
  "convert_kwargs codec fps bitrate =
     \<lparr>kw_codec = Some codec,
      kw_fps = (case fps of Some f \<Rightarrow> if f \<noteq> 0 then Some (Float (real_of_int f)) else None | None \<Rightarrow> None),
      kw_bitrate = (case bitrate of Some b \<Rightarrow> if b \<noteq> [] then Some b else None | None \<Rightarrow> None)\<rparr>"

definition convert_video_format_try ::
  "engine \<Rightarrow> string \<Rightarrow> string \<Rightarrow> string \<Rightarrow> int option \<Rightarrow> string option \<Rightarrow> bool \<Rightarrow> envelope prog" where
  "convert_video_format_try eng video_path output_name codec fps bitrate return_path =
     pbind (os_call (get_output_path eng output_name)) (\<lambda>out_path.
     pbind (VideoStore_load eng video_path) (\<lambda>video.
     let write_kw = convert_kwargs codec fps bitrate in
     if return_path then
       pbind (write_videofile_call eng video out_path write_kw) (\<lambda>_.
       pret ((Envelope True)\<lparr>output_path := Some out_path,
                               message := Some ''Video format converted successfully''\<rparr>))
     else
       pbind (VideoStore_store video) (\<lambda>ref.
       pret ((Envelope True)\<lparr>output_object := Some (Ref ref)\<rparr>))))"

definition convert_video_format ::
  "engine \<Rightarrow> string \<Rightarrow> string \<Rightarrow> string \<Rightarrow> int option \<Rightarrow> string option \<Rightarrow> bool \<Rightarrow> envelope prog" where
  "convert_video_format eng video_path output_name codec fps bitrate return_path =
     try_except (convert_video_format_try eng video_path output_name codec fps bitrate return_path)
       (except_Exception (''Error converting video format '' @ video_path)
          (Some ''Error converting video format''))"

definition add_video_overlay_try ::
  "engine \<Rightarrow> string \<Rightarrow> string \<Rightarrow> int \<Rightarrow> int \<Rightarrow> pyfloat \<Rightarrow> string \<Rightarrow> bool \<Rightarrow> pyfloat \<Rightarrow> envelope prog" where
  "add_video_overlay_try eng base_video_path overlay_video_path x y opacity output_name return_path duration =
     pbind (os_call (get_output_path eng output_name)) (\<lambda>out_path.
     pbind (VideoStore_load eng base_video_path) (\<lambda>base_video.
     pbind (VideoStore_load eng overlay_video_path) (\<lambda>overlay_video.
     pbind (engine_call ''set_position'' (set_position eng overlay_video (x, y))) (\<lambda>overlay1.
     pbind (engine_call ''set_opacity'' (set_opacity eng overlay1 opacity)) (\<lambda>overlay2.
     pbind (engine_call ''set_duration'' (set_duration eng overlay2 duration)) (\<lambda>overlay_positioned.
     pbind (engine_call ''CompositeVideoClip'' (CompositeVideoClip eng [base_video, overlay_positioned])) (\<lambda>final_video.
     if return_path then
       pbind (write_videofile_call eng final_video out_path no_kwargs) (\<lambda>_.
       pret ((Envelope True)\<lparr>output_path := Some out_path,
                               message := Some ''Video overlay added successfully''\<rparr>))
     else
       pbind (VideoStore_store final_video) (\<lambda>ref.
       pret ((Envelope True)\<lparr>output_object := Some (Ref ref)\<rparr>)))))))))"

definition add_video_overlay ::
  "engine \<Rightarrow> string \<Rightarrow> string \<Rightarrow> int \<Rightarrow> int \<Rightarrow> pyfloat \<Rightarrow> string \<Rightarrow> bool \<Rightarrow> pyfloat \<Rightarrow> envelope prog" where
  "add_video_overlay eng base_video_path overlay_video_path x y opacity output_name return_path duration =
     try_except (add_video_overlay_try eng base_video_path overlay_video_path x y opacity output_name return_path duration)
       (except_Exception (''Error adding video overlay '' @ base_video_path)
          (Some ''Error adding video overlay''))"

section \<open>Tool calls\<close>

text \<open>
  \<^verbatim>\<open>register_video_tools\<close> registers the nineteen tools; a caller names one and
  supplies its arguments. \<open>run\<close> is the tool as the caller sees it, \<open>try_block\<close> the
  body of its \<^verbatim>\<open>try\<close>.
\<close>

datatype call =
    GetVideoInfo string
  | TrimVideo string pyfloat pyfloat string bool
  | MergeVideo string string string bool
  | ResizeVideo string "int list" string bool
  | CropVideo string int int int int string bool
  | RotateVideo string pyval string bool
  | SpeedUpVideo string pyfloat string bool
  | AddAudio string string string bool
  | FadeinVideo string pyfloat string bool
  | FadeoutVideo string pyfloat string bool
  | AddTextOverlay string unicode int int int string pyfloat string bool string
  | AddImageOverlay string string int int pyfloat string bool
  | GrayscaleVideo string string bool
  | ImagesToVideo string int string bool
  | ExtractFrames string pyfloat pyfloat int string bool
  | MirrorVideo string string bool
  | SplitVideoAtTimes string "pyfloat list" string bool
  | ConvertVideoFormat string string string "int option" "string option" bool
  | AddVideoOverlay string string int int pyfloat string bool pyfloat

fun run :: "engine \<Rightarrow> call \<Rightarrow> envelope prog" where
  "run eng (GetVideoInfo p) = get_video_info eng p"
| "run eng (TrimVideo p s e n rp) = trim_video eng p s e n rp"
| "run eng (MergeVideo p p2 n rp) = merge_video eng p p2 n rp"
| "run eng (ResizeVideo p sz n rp) = resize_video eng p sz n rp"
| "run eng (CropVideo p x1 y1 x2 y2 n rp) = crop_video eng p x1 y1 x2 y2 n rp"
| "run eng (RotateVideo p a n rp) = rotate_video eng p a n rp"
| "run eng (SpeedUpVideo p sp n rp) = speed_up_video eng p sp n rp"
| "run eng (AddAudio p a n rp) = add_audio eng p a n rp"
| "run eng (FadeinVideo p d n rp) = fadein_video eng p d n rp"
| "run eng (FadeoutVideo p d n rp) = fadeout_video eng p d n rp"
| "run eng (AddTextOverlay p t x y fs col d n rp im) = add_text_overlay eng p t x y fs col d n rp im"
| "run eng (AddImageOverlay p im x y d n rp) = add_image_overlay eng p im x y d n rp"
| "run eng (GrayscaleVideo p n rp) = grayscale_video eng p n rp"
| "run eng (ImagesToVideo folder f n rp) = images_to_video eng folder f n rp"
| "run eng (ExtractFrames p s e f folder rp) = extract_frames eng p s e f folder rp"
| "run eng (MirrorVideo p n rp) = mirror_video eng p n rp"
| "run eng (SplitVideoAtTimes p ts n rp) = split_video_at_times eng p ts n rp"
| "run eng (ConvertVideoFormat p n codec f br rp) = convert_video_format eng p n codec f br rp"
| "run eng (AddVideoOverlay p p2 x y opac n rp d) = add_video_overlay eng p p2 x y opac n rp d"

fun try_block :: "engine \<Rightarrow> call \<Rightarrow> envelope prog" where
  "try_block eng (GetVideoInfo p) = get_video_info_try eng p"
| "try_block eng (TrimVideo p s e n rp) = trim_video_try eng p s e n rp"
| "try_block eng (MergeVideo p p2 n rp) = merge_video_try eng p p2 n rp"
| "try_block eng (ResizeVideo p sz n rp) = resize_video_try eng p sz n rp"
| "try_block eng (CropVideo p x1 y1 x2 y2 n rp) = crop_video_try eng p x1 y1 x2 y2 n rp"
| "try_block eng (RotateVideo p a n rp) = rotate_video_try eng p a n rp"
| "try_block eng (SpeedUpVideo p sp n rp) = speed_up_video_try eng p sp n rp"
| "try_block eng (AddAudio p a n rp) = add_audio_try eng p a n rp"
| "try_block eng (FadeinVideo p d n rp) = fadein_video_try eng p d n rp"
| "try_block eng (FadeoutVideo p d n rp) = fadeout_video_try eng p d n rp"
| "try_block eng (AddTextOverlay p t x y fs col d n rp im) = add_text_overlay_try eng p t x y fs col d n rp im"
| "try_block eng (AddImageOverlay p im x y d n rp) = add_image_overlay_try eng p im x y d n rp"
| "try_block eng (GrayscaleVideo p n rp) = grayscale_video_try eng p n rp"
| "try_block eng (ImagesToVideo folder f n rp) = images_to_video_try eng folder f n rp"
| "try_block eng (ExtractFrames p s e f folder rp) = extract_frames_try eng p s e f folder rp"
| "try_block eng (MirrorVideo p n rp) = mirror_video_try eng p n rp"
| "try_block eng (SplitVideoAtTimes p ts n rp) = split_video_at_times_try eng p ts n rp"
| "try_block eng (ConvertVideoFormat p n codec f br rp) = convert_video_format_try eng p n codec f br rp"
| "try_block eng (AddVideoOverlay p p2 x y opac n rp d) = add_video_overlay_try eng p p2 x y opac n rp d"

text \<open>The \<^verbatim>\<open>message\<close> entry of the dictionary each \<^verbatim>\<open>except\<close> clause returns
  (\<^verbatim>\<open>get_video_info\<close> has none).\<close>

fun except_message :: "call \<Rightarrow> string option" where
  "except_message (GetVideoInfo p) = None"
| "except_message (TrimVideo p s e n rp) = Some ''Error trimming video''"
| "except_message (MergeVideo p p2 n rp) = Some ''Error merging videos''"
| "except_message (ResizeVideo p sz n rp) = Some ''Error resizing video''"
| "except_message (CropVideo p x1 y1 x2 y2 n rp) = Some ''Error cropping video''"
| "except_message (RotateVideo p a n rp) = Some ''Error rotating video''"
| "except_message (SpeedUpVideo p sp n rp) = Some ''Error changing video speed''"
| "except_message (AddAudio p a n rp) = Some ''Error adding audio to video''"
| "except_message (FadeinVideo p d n rp) = Some ''Error adding fade in effect''"
| "except_message (FadeoutVideo p d n rp) = Some ''Error adding fade out effect''"
| "except_message (AddTextOverlay p t x y fs col d n rp im) =
     Some ''Error adding text overlay. Make sure ImageMagick is installed and path is correct.''"
| "except_message (AddImageOverlay p im x y d n rp) = Some ''Error adding image overlay''"
| "except_message (GrayscaleVideo p n rp) = Some ''Error converting video to grayscale''"
| "except_message (ImagesToVideo folder f n rp) = Some ''Error creating video from images''"
| "except_message (ExtractFrames p s e f folder rp) = Some ''Error extracting frames from video''"
| "except_message (MirrorVideo p n rp) = Some ''Error mirroring video''"
| "except_message (SplitVideoAtTimes p ts n rp) = Some ''Error splitting video at times''"
| "except_message (ConvertVideoFormat p n codec f br rp) = Some ''Error converting video format''"
| "except_message (AddVideoOverlay p p2 x y opac n rp d) = Some ''Error adding video overlay''"

text \<open>The caller's \<^verbatim>\<open>return_path\<close> flag; \<^verbatim>\<open>get_video_info\<close> has no such
  parameter.\<close>

fun return_path_of :: "call \<Rightarrow> bool option" where
  "return_path_of (GetVideoInfo p) = None"
| "return_path_of (TrimVideo p s e n rp) = Some rp"
| "return_path_of (MergeVideo p p2 n rp) = Some rp"
| "return_path_of (ResizeVideo p sz n rp) = Some rp"
| "return_path_of (CropVideo p x1 y1 x2 y2 n rp) = Some rp"
| "return_path_of (RotateVideo p a n rp) = Some rp"
| "return_path_of (SpeedUpVideo p sp n rp) = Some rp"
| "return_path_of (AddAudio p a n rp) = Some rp"
| "return_path_of (FadeinVideo p d n rp) = Some rp"
| "return_path_of (FadeoutVideo p d n rp) = Some rp"
| "return_path_of (AddTextOverlay p t x y fs col d n rp im) = Some rp"
| "return_path_of (AddImageOverlay p im x y d n rp) = Some rp"
| "return_path_of (GrayscaleVideo p n rp) = Some rp"
| "return_path_of (ImagesToVideo folder f n rp) = Some rp"
| "return_path_of (ExtractFrames p s e f folder rp) = Some rp"
| "return_path_of (MirrorVideo p n rp) = Some rp"
| "return_path_of (SplitVideoAtTimes p ts n rp) = Some rp"
| "return_path_of (ConvertVideoFormat p n codec f br rp) = Some rp"
| "return_path_of (AddVideoOverlay p p2 x y opac n rp d) = Some rp"


text \<open>The name under which a tool is registered: the name of its function.\<close>

fun tool_name :: "call \<Rightarrow> string" where
  "tool_name (GetVideoInfo p) = ''get_video_info''"
| "tool_name (TrimVideo p s e n rp) = ''trim_video''"
| "tool_name (MergeVideo p p2 n rp) = ''merge_video''"
| "tool_name (ResizeVideo p sz n rp) = ''resize_video''"
| "tool_name (CropVideo p x1 y1 x2 y2 n rp) = ''crop_video''"
| "tool_name (RotateVideo p a n rp) = ''rotate_video''"
| "tool_name (SpeedUpVideo p sp n rp) = ''speed_up_video''"
| "tool_name (AddAudio p a n rp) = ''add_audio''"
| "tool_name (FadeinVideo p d n rp) = ''fadein_video''"
| "tool_name (FadeoutVideo p d n rp) = ''fadeout_video''"
| "tool_name (AddTextOverlay p t x y fs col d n rp im) = ''add_text_overlay''"
| "tool_name (AddImageOverlay p im x y d n rp) = ''add_image_overlay''"
| "tool_name (GrayscaleVideo p n rp) = ''grayscale_video''"
| "tool_name (ImagesToVideo folder f n rp) = ''images_to_video''"
| "tool_name (ExtractFrames p s e f folder rp) = ''extract_frames''"
| "tool_name (MirrorVideo p n rp) = ''mirror_video''"
| "tool_name (SplitVideoAtTimes p ts n rp) = ''split_video_at_times''"
| "tool_name (ConvertVideoFormat p n codec f br rp) = ''convert_video_format''"
| "tool_name (AddVideoOverlay p p2 x y opac n rp d) = ''add_video_overlay''"

section \<open>The properties' vocabulary\<close>



text \<open>The spec's precondition of \<^verbatim>\<open>split_at_times\<close>: all times within
  \<open>(0, duration)\<close>.\<close>

definition split_times_within :: "pyfloat list \<Rightarrow> pyfloat \<Rightarrow> bool" where
  "split_times_within ts d = list_all (\<lambda>t. flt (Float 0) t \<and> flt t d) ts"

text \<open>The output keys present in an envelope.\<close>

definition output_fields :: "envelope \<Rightarrow> string list" where
  "output_fields env =
     (if output_path env \<noteq> None then [''output_path''] else []) @
     (if output_paths env \<noteq> None then [''output_paths''] else []) @
     (if output_object env \<noteq> None then [''output_object''] else []) @
     (if output_objects env \<noteq> None then [''output_objects''] else [])"

definition new_calls :: "world \<Rightarrow> world \<Rightarrow> event list" where
  "new_calls w w' = drop (length (calls w)) (calls w')"

fun is_write :: "event \<Rightarrow> bool" where
  "is_write (EngineWrite c path kw) = True"
| "is_write _ = False"





text \<open>The subclips of \<open>video\<close> over the neighbouring boundaries of
  \<^verbatim>\<open>[0] + times + [duration]\<close>, as the engine returns them, in order.\<close>

definition interval_subclips :: "engine \<Rightarrow> clip \<Rightarrow> pyfloat list \<Rightarrow> (exn + clip) list" where
  "interval_subclips eng video ts =
     map (\<lambda>(a, b). subclip eng video a b)
         (zip ([Float 0] @ ts @ [clip_duration video]) (ts @ [clip_duration video]))"

section \<open>Fixtures: two engines and two worlds\<close>

text \<open>
  A small engine for the examples: one readable file \<^verbatim>\<open>in.mp4\<close> of ten seconds, and
  writes that succeed. Its subclip follows moviepy's on finite times: a negative time
  counts from the end of the clip, a start after the end of the clip raises
  \<^verbatim>\<open>ValueError\<close>, and the duration of the result is end minus start. It takes the
  rounding of the arithmetic as a parameter; \<open>test_engine\<close> computes exactly.
\<close>

definition test_clip :: clip where
  "test_clip = \<lparr>clip_duration = Float 10, clip_fps = Float 30, clip_w = 640, clip_h = 480,
                clip_audio = None, clip_content = 0\<rparr>"

definition not_found :: "string \<Rightarrow> exn" where
  "not_found p = Exception ''OSError'' (''MoviePy error: the file '' @ p @ '' could not be found!'')"

definition fixture_subclip :: "(real \<Rightarrow> real) \<Rightarrow> clip \<Rightarrow> pyfloat \<Rightarrow> pyfloat \<Rightarrow> exn + clip" where
  "fixture_subclip rnd c s e =
     (case (clip_duration c, s, e) of
        (Float d, Float a, Float b) \<Rightarrow>
          (let t_start = (if a < 0 then rnd (d + a) else a) in
           if t_start > d then
             Inl (Exception ''ValueError'' ''t_start should be smaller than the duration of the clip'')
           else
             (let t_end = (if b < 0 then rnd (d + b) else b) in
              Inr (c\<lparr>clip_duration := Float (rnd (t_end - t_start))\<rparr>)))
      | _ \<Rightarrow> Inr (c\<lparr>clip_duration := NaN\<rparr>))"

fun fixture_add :: "pyfloat \<Rightarrow> pyfloat \<Rightarrow> pyfloat" where
  "fixture_add (Float a) (Float b) = Float (a + b)"
| "fixture_add a b = NaN"

fun fixture_div :: "pyfloat \<Rightarrow> pyfloat \<Rightarrow> pyfloat" where
  "fixture_div (Float a) (Float b) = (if b = 0 then NaN else Float (a / b))"
| "fixture_div a b = NaN"

definition test_engine :: engine where
  "test_engine = \<lparr>
     get_output_path = (\<lambda>name. Inr (''/out/'' @ name)),
     VideoFileClip = (\<lambda>p. if p = ''in.mp4'' then Inr test_clip else Inl (not_found p)),
     AudioFileClip = (\<lambda>p. Inl (not_found p)),
     close = (\<lambda>c. Inr ()),
     getsize = (\<lambda>p. if p = ''in.mp4'' then Some 1000000 else None),
     subclip = fixture_subclip (\<lambda>x. x),
     concatenate_videoclips =
       (\<lambda>cs. Inr (test_clip\<lparr>clip_duration := foldr fixture_add (map clip_duration cs) (Float 0)\<rparr>)),
     resize = (\<lambda>c sz. Inr (c\<lparr>clip_w := sz ! 0, clip_h := sz ! 1\<rparr>)),
     crop = (\<lambda>c x1 y1 x2 y2. Inr (c\<lparr>clip_w := x2 - x1, clip_h := y2 - y1\<rparr>)),
     rotate_fx = (\<lambda>c a. Inr c),
     speedx = (\<lambda>c f. Inr (c\<lparr>clip_duration := fixture_div (clip_duration c) f\<rparr>)),
     set_audio = (\<lambda>c a. Inr (c\<lparr>clip_audio := Some a\<rparr>)),
     fadein = (\<lambda>c d. Inr c),
     fadeout = (\<lambda>c d. Inr c),
     change_settings = (\<lambda>p. Inr ()),
     TextClip = (\<lambda>t fs col. Inr (test_clip\<lparr>clip_content := 1\<rparr>)),
     ImageClip = (\<lambda>p. Inl (not_found p)),
     set_position = (\<lambda>c pos. Inr c),
     set_duration = (\<lambda>c d. Inr (c\<lparr>clip_duration := d\<rparr>)),
     set_opacity = (\<lambda>c x. Inr c),
     CompositeVideoClip = (\<lambda>cs. Inr (hd cs)),
     blackwhite = (\<lambda>c. Inr c),
     mirror_x = (\<lambda>c. Inr c),
     ImageSequenceClip = (\<lambda>folder f. Inl (not_found folder)),
     iter_frames = (\<lambda>c f. ([0, 1, 2], None)),
     makedirs = (\<lambda>p. Inr ()),
     imwrite = (\<lambda>p fr. Inr ()),
     write_videofile = (\<lambda>c p kw. Inr ())\<rparr>"




text \<open>The stores are empty when the process starts.\<close>

definition empty_world :: world where
  "empty_world = \<lparr>video_store = Map.empty, audio_store = Map.empty, issued = 0,
                  calls = [], error_log = []\<rparr>"


section \<open>Auxiliary predicates for the proofs\<close>

text \<open>\<open>returns m P\<close>: whatever \<open>m\<close> returns without raising satisfies \<open>P\<close>.\<close>

definition returns :: "'a prog \<Rightarrow> ('a \<Rightarrow> bool) \<Rightarrow> bool" where
  "returns m P \<longleftrightarrow> (\<forall>w x w'. m w = (Inr x, w') \<longrightarrow> P x)"

text \<open>The form of the dictionaries a \<^verbatim>\<open>try\<close> body returns.\<close>

definition shape :: "call \<Rightarrow> envelope \<Rightarrow> bool" where
  "shape c env \<longleftrightarrow>
     error_type env = None \<and>
     (if success env then
        (case return_path_of c of
           None \<Rightarrow> output_fields env = [] \<and> video_info env \<noteq> None
         | Some True \<Rightarrow>
             output_fields env =
               [if tool_name c = ''split_video_at_times'' then ''output_paths'' else ''output_path'']
         | Some False \<Rightarrow>
             output_fields env =
               [if tool_name c = ''split_video_at_times'' then ''output_objects'' else ''output_object''])
      else output_fields env = [] \<and> error env \<noteq> None \<and> message env \<noteq> None)"

section \<open>Basic facts\<close>

lemmas prog_defs = pbind_def pret_def try_except_def engine_call_def os_call_def
  write_videofile_call_def VideoStore_load_def VideoStore_store_def AudioStore_load_def
  except_Exception_def logger_error_def generator_end_def

lemmas try_defs = get_video_info_try_def trim_video_try_def merge_video_try_def resize_video_try_def
  crop_video_try_def rotate_video_try_def speed_up_video_try_def add_audio_try_def
  fadein_video_try_def fadeout_video_try_def add_text_overlay_try_def add_image_overlay_try_def
  grayscale_video_try_def images_to_video_try_def extract_frames_try_def mirror_video_try_def
  split_video_at_times_try_def convert_video_format_try_def add_video_overlay_try_def

lemmas tool_defs = get_video_info_def trim_video_def merge_video_def resize_video_def crop_video_def
  rotate_video_def speed_up_video_def add_audio_def fadein_video_def fadeout_video_def
  add_text_overlay_def add_image_overlay_def grayscale_video_def images_to_video_def
  extract_frames_def mirror_video_def split_video_at_times_def convert_video_format_def
  add_video_overlay_def

subsection \<open>The handler\<close>

lemma try_except_fst:
  "fst (try_except m (except_Exception t msg) w) =
     (case fst (m w) of
        Inr env \<Rightarrow> Inr env
      | Inl e \<Rightarrow> Inr ((Envelope False)\<lparr>error := Some (exn_msg e), error_type := Some (exn_class e),
                                      message := msg\<rparr>))"
  by (simp add: try_except_def except_Exception_def pbind_def logger_error_def pret_def
        split: prod.splits sum.splits)

lemma run_try_block:
  "fst (run eng c w) =
     (case fst (try_block eng c w) of
        Inr env \<Rightarrow> Inr env
      | Inl e \<Rightarrow> Inr ((Envelope False)\<lparr>error := Some (exn_msg e), error_type := Some (exn_class e),
                                      message := except_message c\<rparr>))"
proof (cases c)
  case (GetVideoInfo p)
  then show ?thesis
    by (simp add: get_video_info_def try_except_def pbind_def logger_error_def pret_def Envelope_def
        split: prod.splits sum.splits)
qed (simp_all only: run.simps try_block.simps except_message.simps tool_defs try_except_fst)

subsection \<open>What a \<^verbatim>\<open>try\<close> body returns\<close>

lemma returns_pret: "P x \<Longrightarrow> returns (pret x) P"
  by (simp add: returns_def pret_def)

lemma returns_pbind: "(\<And>x. returns (f x) P) \<Longrightarrow> returns (pbind m f) P"
  by (auto simp add: returns_def pbind_def split: prod.splits sum.splits)

lemma returns_if: "(b \<Longrightarrow> returns m P) \<Longrightarrow> (\<not> b \<Longrightarrow> returns n P) \<Longrightarrow> returns (if b then m else n) P"
  by simp

lemma returns_let: "returns (f v) P \<Longrightarrow> returns (Let v f) P"
  by simp

lemmas returns_intros = returns_pret returns_pbind returns_if returns_let

lemma try_block_shape: "returns (try_block eng c) (shape c)"
  apply (cases c)
  apply (simp_all only: try_block.simps try_defs)
  apply (intro returns_intros; simp add: shape_def output_fields_def Envelope_def)+
  done

lemma try_block_shapeD: "fst (try_block eng c w) = Inr env \<Longrightarrow> shape c env"
  using try_block_shape[of eng c] by (cases "try_block eng c w") (auto simp: returns_def)

lemma handler_envelope_fields:
  "output_fields ((Envelope False)\<lparr>error := a, error_type := b, message := m\<rparr>) = []"
  by (simp add: output_fields_def Envelope_def)

subsection \<open>References are distinct\<close>

lemma str_nat_nonempty: "str_nat n \<noteq> []"
  by (subst str_nat.simps) simp

lemma digit_char_inj: "a < 10 \<Longrightarrow> b < 10 \<Longrightarrow> digit_char a = digit_char b \<Longrightarrow> a = b"
proof -
  assume a: "a < 10" and b: "b < 10" and e: "digit_char a = digit_char b"
  have d: "distinct ''0123456789''" by simp
  have l: "length ''0123456789'' = 10" by simp
  from e have "''0123456789'' ! a = ''0123456789'' ! b" by (simp add: digit_char_def)
  with d l a b show "a = b" by (metis nth_eq_iff_index_eq)
qed

lemma str_nat_inj: "str_nat m = str_nat n \<Longrightarrow> m = n"
proof (induction m arbitrary: n rule: str_nat.induct)
  case (1 m)
  show ?case
  proof (cases "m < 10")
    case m: True
    show ?thesis
    proof (cases "n < 10")
      case True
      with m "1.prems" show ?thesis
        by (simp add: str_nat.simps[of m] str_nat.simps[of n] digit_char_inj)
    next
      case False
      with m "1.prems" str_nat_nonempty[of "n div 10"] show ?thesis
        by (simp add: str_nat.simps[of m] str_nat.simps[of n] Cons_eq_append_conv)
    qed
  next
    case m: False
    show ?thesis
    proof (cases "n < 10")
      case True
      with m "1.prems" str_nat_nonempty[of "m div 10"] show ?thesis
        by (simp add: str_nat.simps[of m] str_nat.simps[of n] append_eq_Cons_conv)
    next
      case False
      with m "1.prems" have e: "str_nat (m div 10) = str_nat (n div 10)"
        and d: "digit_char (m mod 10) = digit_char (n mod 10)"
        by (simp_all add: str_nat.simps[of m] str_nat.simps[of n])
      from "1.IH"[OF m e] have q: "m div 10 = n div 10" .
      from d have r: "m mod 10 = n mod 10" by (simp add: digit_char_inj)
      from q r show ?thesis by (metis div_mult_mod_eq)
    qed
  qed
qed

lemma new_ref_inj: "new_ref m = new_ref n \<longleftrightarrow> m = n"
  by (auto simp: new_ref_def dest: str_nat_inj)

subsection \<open>The loops\<close>

lemma new_calls_append [simp]: "new_calls w (w'\<lparr>calls := calls w @ evs\<rparr>) = evs"
  by (simp add: new_calls_def)

lemma subclips_frame:
  "subclips eng v bs w = (r, w') \<Longrightarrow>
     video_store w' = video_store w \<and> audio_store w' = audio_store w \<and> issued w' = issued w \<and>
     error_log w' = error_log w \<and> (\<exists>k. calls w' = calls w @ replicate k (EngineCall ''subclip''))"
proof (induction eng v bs arbitrary: w r w' rule: subclips.induct)
  case (1 eng video a b rest)
  show ?case
  proof (cases "subclip eng video a b")
    case (Inl e)
    with "1.prems" show ?thesis
      by (auto simp: pbind_def engine_call_def intro: exI[of _ 1])
  next
    case (Inr seg)
    obtain r2 w2 where s2: "subclips eng video (b # rest) (w\<lparr>calls := calls w @ [EngineCall ''subclip'']\<rparr>) = (r2, w2)"
      by (cases "subclips eng video (b # rest) (w\<lparr>calls := calls w @ [EngineCall ''subclip'']\<rparr>)")
    from "1.IH"[OF s2] obtain k where
      f: "video_store w2 = video_store w" "audio_store w2 = audio_store w" "issued w2 = issued w"
         "error_log w2 = error_log w"
      and c: "calls w2 = calls w @ replicate (Suc k) (EngineCall ''subclip'')"
      by auto
    from "1.prems" Inr s2 have "w' = w2"
      by (auto simp: pbind_def engine_call_def pret_def split: sum.splits)
    with f c show ?thesis by blast
  qed
qed (auto simp: pret_def)


lemma write_segments_spec:
  "write_segments eng out n i segs w = (r, w') \<Longrightarrow>
     video_store w' = video_store w \<and> audio_store w' = audio_store w \<and> issued w' = issued w \<and>
     error_log w' = error_log w \<and>
     (\<exists>evs. calls w' = calls w @ evs \<and> list_all is_write evs) \<and>
     (\<forall>paths. r = Inr paths \<longrightarrow> length paths = length segs \<and>
        calls w' = calls w @ map2 (\<lambda>seg p. EngineWrite seg p no_kwargs) segs paths)"
proof (induction segs arbitrary: i w r w')
  case Nil
  then show ?case by (auto simp: pret_def)
next
  case (Cons seg segs)
  let ?p = "os_path_join out (n @ ''_part_'' @ str_nat (i + 1) @ ''.mp4'')"
  let ?w1 = "w\<lparr>calls := calls w @ [EngineWrite seg ?p no_kwargs]\<rparr>"
  show ?case
  proof (cases "write_videofile eng seg ?p no_kwargs")
    case (Inl e)
    with Cons.prems have "r = Inl e" "w' = ?w1"
      by (auto simp: pbind_def write_videofile_call_def Let_def)
    then show ?thesis by auto
  next
    case (Inr u)
    obtain r2 w2 where s2: "write_segments eng out n (Suc i) segs ?w1 = (r2, w2)"
      by (cases "write_segments eng out n (Suc i) segs ?w1")
    note ih = Cons.IH[OF s2]
    from Cons.prems Inr s2 have w: "w' = w2"
      and r: "r = (case r2 of Inl e \<Rightarrow> Inl e | Inr ps \<Rightarrow> Inr (?p # ps))"
      by (auto simp: pbind_def pret_def write_videofile_call_def Let_def split: sum.splits)
    from ih obtain evs where evs: "calls w2 = calls w @ EngineWrite seg ?p no_kwargs # evs" "list_all is_write evs"
      by auto
    have a: "\<exists>evs. calls w' = calls w @ evs \<and> list_all is_write evs"
      using evs w by (intro exI[of _ "EngineWrite seg ?p no_kwargs # evs"]) simp
    have b: "\<forall>paths. r = Inr paths \<longrightarrow> length paths = length (seg # segs) \<and>
        calls w' = calls w @ map2 (\<lambda>seg p. EngineWrite seg p no_kwargs) (seg # segs) paths"
      using r ih w by (auto split: sum.splits)
    from a b ih w show ?thesis by simp
  qed
qed


lemma store_all_spec:
  "store_all segs w = (r, w') \<Longrightarrow>
     r = Inr (map new_ref [issued w ..< issued w + length segs]) \<and>
     issued w' = issued w + length segs \<and>
     audio_store w' = audio_store w \<and> error_log w' = error_log w \<and>
     calls w' = calls w @ map2 StoreStore (map new_ref [issued w ..< issued w + length segs]) segs \<and>
     (\<forall>i < length segs. video_store w' (new_ref (issued w + i)) = Some (segs ! i)) \<and>
     (\<forall>k. k \<notin> new_ref ` {issued w ..< issued w + length segs} \<longrightarrow> video_store w' k = video_store w k)"
proof (induction segs arbitrary: w r w')
  case Nil
  then show ?case by (auto simp: pret_def)
next
  case (Cons seg segs)
  let ?w1 = "w\<lparr>video_store := (video_store w)(new_ref (issued w) \<mapsto> seg),
                 issued := Suc (issued w),
                 calls := calls w @ [StoreStore (new_ref (issued w)) seg]\<rparr>"
  obtain r2 w2 where s2: "store_all segs ?w1 = (r2, w2)" by (cases "store_all segs ?w1")
  note ih = Cons.IH[OF s2]
  from Cons.prems s2 ih have r: "r = Inr (new_ref (issued w) # map new_ref [Suc (issued w) ..< Suc (issued w) + length segs])"
    and w: "w' = w2"
    by (auto simp: pbind_def pret_def VideoStore_store_def Let_def)
  have up: "[issued w ..< issued w + length (seg # segs)] = issued w # [Suc (issued w) ..< Suc (issued w) + length segs]"
    by (simp add: upt_rec)
  have a: "r = Inr (map new_ref [issued w ..< issued w + length (seg # segs)])"
    using r up by simp
  have b: "calls w' = calls w @ map2 StoreStore (map new_ref [issued w ..< issued w + length (seg # segs)]) (seg # segs)"
    using ih w up by simp
  have c: "\<forall>i < length (seg # segs). video_store w' (new_ref (issued w + i)) = Some ((seg # segs) ! i)"
  proof (intro allI impI)
    fix i assume i: "i < length (seg # segs)"
    show "video_store w' (new_ref (issued w + i)) = Some ((seg # segs) ! i)"
    proof (cases i)
      case 0
      have "new_ref (issued w) \<notin> new_ref ` {issued ?w1 ..< issued ?w1 + length segs}"
        by (auto simp: new_ref_inj)
      with ih have "video_store w2 (new_ref (issued w)) = video_store ?w1 (new_ref (issued w))"
        by blast
      with 0 w show ?thesis by simp
    next
      case (Suc j)
      with i ih w show ?thesis by simp
    qed
  qed
  have d: "\<forall>k. k \<notin> new_ref ` {issued w ..< issued w + length (seg # segs)} \<longrightarrow> video_store w' k = video_store w k"
  proof (intro allI impI)
    fix k assume k: "k \<notin> new_ref ` {issued w ..< issued w + length (seg # segs)}"
    then have k1: "k \<noteq> new_ref (issued w)" by auto
    from k have "k \<notin> new_ref ` {issued ?w1 ..< issued ?w1 + length segs}" by auto
    with ih have "video_store w2 k = video_store ?w1 k" by blast
    with k1 w show "video_store w' k = video_store w k" by simp
  qed
  from a b c d ih w show ?case by simp
qed


lemma load_frame:
  "VideoStore_load eng p w = (r, w0) \<Longrightarrow>
     video_store w0 = video_store w \<and> audio_store w0 = audio_store w \<and> issued w0 = issued w \<and>
     error_log w0 = error_log w \<and>
     (calls w0 = calls w @ [StoreLoad p] \<or> calls w0 = calls w @ [StoreLoad p, EngineCall ''VideoFileClip''])"
  by (auto simp: VideoStore_load_def engine_call_def Let_def split: option.splits)



subsection \<open>The world a tool leaves\<close>



lemma split_try_succeeds: "returns (split_video_at_times_try eng p ts n rp) success"
  by (simp only: split_video_at_times_try_def)
     (intro returns_intros; simp add: Envelope_def)+

lemma run_calls:
  "tool_name c \<noteq> ''get_video_info'' \<Longrightarrow>
     calls (snd (run eng c w)) = calls (snd (try_block eng c w)) \<and>
     video_store (snd (run eng c w)) = video_store (snd (try_block eng c w)) \<and>
     issued (snd (run eng c w)) = issued (snd (try_block eng c w))"
  by (cases c)
     (auto simp: tool_defs try_except_def except_Exception_def pbind_def logger_error_def pret_def
        split: prod.splits sum.splits)

lemma split_try_reads_store:
  "split_video_at_times_try eng p ts n rp w = (r, w') \<Longrightarrow> get_output_path eng n = Inr out \<Longrightarrow>
     \<exists>evs. calls w' = calls w @ StoreLoad p # evs"
  apply (auto simp: split_video_at_times_try_def pbind_def os_call_def pret_def
        split: sum.splits prod.splits if_splits
        dest!: load_frame subclips_frame write_segments_spec store_all_spec)
  done

subsection \<open>Which calls a tool makes\<close>














subsection \<open>Comparisons of floats\<close>




subsection \<open>The subclip requests of a split, and the clip a tool registers\<close>


lemma subclips_count:
  "subclips eng v bs w = (r, w') \<Longrightarrow>
     calls w' = calls w @
       replicate (min (length bs - 1)
                    (Suc (length (takeWhile (\<lambda>x. \<not> isl x)
                                   (map (\<lambda>(a, b). subclip eng v a b) (zip bs (tl bs)))))))
                 (EngineCall ''subclip'')"
proof (induction eng v bs arbitrary: w r w' rule: subclips.induct)
  case (1 eng video a b rest)
  show ?case
  proof (cases "subclip eng video a b")
    case (Inl e)
    with "1.prems" show ?thesis
      by (auto simp: pbind_def engine_call_def)
  next
    case (Inr seg)
    obtain r2 w2 where s2: "subclips eng video (b # rest) (w\<lparr>calls := calls w @ [EngineCall ''subclip'']\<rparr>) = (r2, w2)"
      by (cases "subclips eng video (b # rest) (w\<lparr>calls := calls w @ [EngineCall ''subclip'']\<rparr>)")
    from "1.prems" Inr s2 have w: "w' = w2"
      by (auto simp: pbind_def engine_call_def pret_def split: sum.splits)
    from "1.IH"[OF s2] Inr w show ?thesis
      by (simp add: replicate_append_same)
  qed
qed (auto simp: pret_def)

lemma split_try_subclip_calls:
  assumes "split_video_at_times_try eng p ts n rp w = (r, w')"
    and "get_output_path eng n = Inr out" and "VideoStore_load eng p w = (Inr video, w0)"
  shows "\<exists>evs. calls w' = calls w0 @
            replicate (min (length ts + 1)
                         (Suc (length (takeWhile (\<lambda>x. \<not> isl x) (interval_subclips eng video ts)))))
                      (EngineCall ''subclip'') @ evs \<and>
          EngineCall ''subclip'' \<notin> set evs"
proof -
  let ?bs = "[Float 0] @ ts @ [clip_duration video]"
  obtain r1 w1 where s: "subclips eng video ?bs w0 = (r1, w1)"
    by (cases "subclips eng video ?bs w0")
  from subclips_count[OF s] have
    c1: "calls w1 = calls w0 @
            replicate (min (length ts + 1)
                         (Suc (length (takeWhile (\<lambda>x. \<not> isl x) (interval_subclips eng video ts)))))
                      (EngineCall ''subclip'')"
    by (simp add: interval_subclips_def)
  show ?thesis
  proof (cases r1)
    case (Inl e)
    with assms s have "w' = w1"
      by (simp add: split_video_at_times_try_def pbind_def os_call_def)
    with c1 show ?thesis by simp
  next
    case (Inr segs)
    show ?thesis
    proof (cases rp)
      case True
      obtain r2 w2 where a: "write_segments eng out n 0 segs w1 = (r2, w2)"
        by (cases "write_segments eng out n 0 segs w1")
      from write_segments_spec[OF a] obtain evs where
        e: "calls w2 = calls w1 @ evs" "list_all is_write evs" by blast
      from e(2) have ne: "EngineCall ''subclip'' \<notin> set evs" by (auto simp: list_all_iff)
      from assms s Inr True a have "w' = w2"
        by (auto simp: split_video_at_times_try_def pbind_def os_call_def pret_def split: sum.splits)
      with c1 e(1) ne show ?thesis by simp
    next
      case False
      obtain r2 w2 where a: "store_all segs w1 = (r2, w2)"
        by (cases "store_all segs w1")
      let ?evs = "map2 StoreStore (map new_ref [issued w1 ..< issued w1 + length segs]) segs"
      from store_all_spec[OF a] have e: "calls w2 = calls w1 @ ?evs" "r2 = Inr (map new_ref [issued w1 ..< issued w1 + length segs])"
        by simp_all
      have ne: "EngineCall ''subclip'' \<notin> set ?evs" by auto
      from assms s Inr False a e(2) have "w' = w2"
        by (auto simp: split_video_at_times_try_def pbind_def os_call_def pret_def split: sum.splits)
      with c1 e(1) ne show ?thesis by simp
    qed
  qed
qed


subsection \<open>Two roundings\<close>




section \<open>The claims\<close>

text \<open>
  C3. No tool lets an exception through. Whatever the engine, the arguments and the
  world, a tool returns a dictionary; and when the body of its \<^verbatim>\<open>try\<close> raises
  \<open>e\<close> (during resolution, in a library call or on emission), the dictionary returned
  is the failure one, with \<^verbatim>\<open>error\<close> = \<^verbatim>\<open>str(e)\<close> and \<^verbatim>\<open>error_type\<close> = the class
  name of \<open>e\<close>.
\<close>

theorem exceptions_become_envelopes:
  "(\<exists>env. fst (run eng c w) = Inr env) \<and>
   (\<forall>e. fst (try_block eng c w) = Inl e \<longrightarrow>
        fst (run eng c w) =
          Inr ((Envelope False)\<lparr>error := Some (exn_msg e), error_type := Some (exn_class e),
                                  message := except_message c\<rparr>))"
  by (simp add: run_try_block split: sum.splits)

theorem exceptions_become_envelopes_witness:
  "fst (try_block test_engine (GetVideoInfo ''missing.mp4'') empty_world) = Inl (not_found ''missing.mp4'') \<and>
   fst (run test_engine (GetVideoInfo ''missing.mp4'') empty_world) =
     Inr ((Envelope False)\<lparr>error := Some ''MoviePy error: the file missing.mp4 could not be found!'',
                             error_type := Some ''OSError''\<rparr>)"
proof -
  have t: "fst (try_block test_engine (GetVideoInfo ''missing.mp4'') empty_world) = Inl (not_found ''missing.mp4'')"
    by (simp add: get_video_info_try_def pbind_def engine_call_def test_engine_def)
  from exceptions_become_envelopes[of test_engine "GetVideoInfo ''missing.mp4''" empty_world] t
  show ?thesis by (simp add: not_found_def Envelope_def)
qed

text \<open>
  C9. The round trip of the object store: the reference \<^verbatim>\<open>store(clip)\<close> returns
  resolves with \<^verbatim>\<open>load\<close> to the clip that was stored, hence to one of the same
  duration and size.
\<close>

theorem store_load_round_trip:
  "\<exists>ref w1 c'. VideoStore_store c w = (Inr ref, w1) \<and> fst (VideoStore_load eng ref w1) = Inr c' \<and>
      c' = c \<and> clip_duration c' = clip_duration c \<and> clip_w c' = clip_w c \<and> clip_h c' = clip_h c"
  by (simp add: VideoStore_store_def VideoStore_load_def Let_def)

theorem store_load_round_trip_witness:
  "fst (VideoStore_store test_clip empty_world) = Inr ''ref_0'' \<and>
   fst (VideoStore_load test_engine ''ref_0'' (snd (VideoStore_store test_clip empty_world))) = Inr test_clip"
proof -
  from store_load_round_trip[of test_clip empty_world test_engine] obtain ref w1 where
    h: "VideoStore_store test_clip empty_world = (Inr ref, w1)"
       "fst (VideoStore_load test_engine ref w1) = Inr test_clip"
    by blast
  from h(1) have "ref = ''ref_0''"
    by (simp add: VideoStore_store_def empty_world_def new_ref_def str_nat.simps digit_char_def Let_def)
  with h show ?thesis by simp
qed

text \<open>
  C1 (as amended). A tool with a \<^verbatim>\<open>return_path\<close> parameter, that is every tool
  but \<^verbatim>\<open>get_video_info\<close>, returns on success exactly one output key, fixed by the
  tool and the flag: \<^verbatim>\<open>output_path\<close> when the flag is true and \<^verbatim>\<open>output_object\<close>
  when it is false, for every tool but \<^verbatim>\<open>split_video_at_times\<close>, which returns
  \<^verbatim>\<open>output_paths\<close> and \<^verbatim>\<open>output_objects\<close>. A successful \<^verbatim>\<open>get_video_info\<close>
  returns \<^verbatim>\<open>video_info\<close> and no output key. A failure returns no output key.
\<close>

theorem output_fields_follow_return_path:
  "fst (run eng c w) = Inr env \<Longrightarrow>
     (success env \<longrightarrow>
        (case return_path_of c of
           None \<Rightarrow> output_fields env = [] \<and> video_info env \<noteq> None
         | Some True \<Rightarrow>
             output_fields env =
               [if tool_name c = ''split_video_at_times'' then ''output_paths'' else ''output_path'']
         | Some False \<Rightarrow>
             output_fields env =
               [if tool_name c = ''split_video_at_times'' then ''output_objects'' else ''output_object''])) \<and>
     (\<not> success env \<longrightarrow> output_fields env = [])"
proof (cases "fst (try_block eng c w)")
  case (Inl e)
  assume "fst (run eng c w) = Inr env"
  with Inl have "env = (Envelope False)\<lparr>error := Some (exn_msg e), error_type := Some (exn_class e),
                                  message := except_message c\<rparr>"
    by (simp add: run_try_block)
  then show ?thesis by (simp add: handler_envelope_fields) (simp add: Envelope_def)
next
  case (Inr env')
  assume "fst (run eng c w) = Inr env"
  with Inr have "env' = env" by (simp add: run_try_block)
  with try_block_shapeD[OF Inr] show ?thesis by (simp add: shape_def split: if_splits)
qed

theorem output_fields_follow_return_path_witness:
  "fst (run test_engine (TrimVideo ''in.mp4'' (Float 2) (Float 5) ''t.mp4'' False) empty_world) =
     Inr ((Envelope True)\<lparr>output_object := Some (Ref ''ref_0'')\<rparr>) \<and>
   success ((Envelope True)\<lparr>output_object := Some (Ref ''ref_0'')\<rparr>) \<and>
   output_fields ((Envelope True)\<lparr>output_object := Some (Ref ''ref_0'')\<rparr>) = [''output_object'']"
proof -
  let ?E = "(Envelope True)\<lparr>output_object := Some (Ref ''ref_0'')\<rparr>"
  have r: "fst (run test_engine (TrimVideo ''in.mp4'' (Float 2) (Float 5) ''t.mp4'' False) empty_world) = Inr ?E"
    by (simp add: trim_video_def trim_video_try_def prog_defs test_engine_def empty_world_def
          fixture_subclip_def test_clip_def fge_def
          new_ref_def str_nat.simps digit_char_def Let_def)
  have s: "success ?E" by (simp add: Envelope_def)
  from output_fields_follow_return_path[OF r] s have "output_fields ?E = [''output_object'']"
    by simp
  with r s show ?thesis by simp
qed

text \<open>
  C1 as stated fails: \<^verbatim>\<open>get_video_info\<close> on a readable file succeeds and returns
  \<^verbatim>\<open>video_info\<close>, and none of the four output keys.
\<close>

theorem get_video_info_no_output_field:
  "map_sum id (\<lambda>env. (success env, video_info env \<noteq> None, output_fields env))
     (fst (run test_engine (GetVideoInfo ''in.mp4'') empty_world)) = Inr (True, True, [])"
  by (simp add: get_video_info_def get_video_info_try_def prog_defs test_engine_def empty_world_def
        Envelope_def output_fields_def)

text \<open>
  C10. In a failure dictionary, \<^verbatim>\<open>error_type\<close> is present exactly when the body of
  the \<^verbatim>\<open>try\<close> raised, and it is then the class name of the exception; a failure
  dictionary returned by the body itself, which is what argument validation returns,
  carries \<^verbatim>\<open>error\<close> and \<^verbatim>\<open>message\<close> and no \<^verbatim>\<open>error_type\<close>.
\<close>

theorem error_type_marks_handler:
  "fst (run eng c w) = Inr env \<Longrightarrow> \<not> success env \<Longrightarrow>
     ((error_type env \<noteq> None) = (\<exists>e. fst (try_block eng c w) = Inl e)) \<and>
     (\<forall>e. fst (try_block eng c w) = Inl e \<longrightarrow>
          error_type env = Some (exn_class e) \<and> error env = Some (exn_msg e)) \<and>
     (\<forall>env'. fst (try_block eng c w) = Inr env' \<longrightarrow>
          env' = env \<and> error env \<noteq> None \<and> message env \<noteq> None \<and> error_type env = None)"
proof (cases "fst (try_block eng c w)")
  case (Inl e)
  assume "fst (run eng c w) = Inr env"
  with Inl have "env = (Envelope False)\<lparr>error := Some (exn_msg e), error_type := Some (exn_class e),
                                  message := except_message c\<rparr>"
    by (simp add: run_try_block)
  with Inl show ?thesis by simp
next
  case (Inr env')
  assume "fst (run eng c w) = Inr env" and "\<not> success env"
  with Inr have "env' = env" by (simp add: run_try_block)
  with try_block_shapeD[OF Inr] \<open>\<not> success env\<close> Inr show ?thesis by (simp add: shape_def)
qed

theorem error_type_marks_handler_witness:
  "fst (run test_engine (TrimVideo ''in.mp4'' (Float 5) (Float 2) ''t.mp4'' True) empty_world) =
     Inr ((Envelope False)\<lparr>error := Some ''Start time must be less than end time'',
                             message := Some ''Invalid time range''\<rparr>) \<and>
   \<not> success ((Envelope False)\<lparr>error := Some ''Start time must be less than end time'',
                             message := Some ''Invalid time range''\<rparr>) \<and>
   \<not> (\<exists>e. fst (try_block test_engine (TrimVideo ''in.mp4'' (Float 5) (Float 2) ''t.mp4'' True) empty_world) = Inl e)"
proof -
  let ?E = "(Envelope False)\<lparr>error := Some ''Start time must be less than end time'',
                             message := Some ''Invalid time range''\<rparr>"
  have r: "fst (run test_engine (TrimVideo ''in.mp4'' (Float 5) (Float 2) ''t.mp4'' True) empty_world) = Inr ?E"
    by (simp add: trim_video_def trim_video_try_def try_except_def pret_def fge_def)
  have s: "\<not> success ?E" by (simp add: Envelope_def)
  from error_type_marks_handler[OF r s] r s show ?thesis by (simp add: Envelope_def)
qed




text \<open>
  C8. With \<^verbatim>\<open>return_path\<close> false, \<^verbatim>\<open>convert_video_format\<close> does the same
  whatever \<^verbatim>\<open>codec\<close>, \<^verbatim>\<open>fps\<close> and \<^verbatim>\<open>bitrate\<close> are, and it never writes
  a file; when the output path and the input resolve, it succeeds and the reference it
  returns resolves to the very clip the input resolved to. With \<^verbatim>\<open>return_path\<close>
  true the same call makes exactly one write, of that clip with the given settings.
\<close>

theorem convert_store_branch_keeps_clip:
  "convert_video_format eng p n codec f br False w = convert_video_format eng p n codec' f' br' False w \<and>
   filter is_write (new_calls w (snd (run eng (ConvertVideoFormat p n codec f br False) w))) = [] \<and>
   (get_output_path eng n = Inr out \<and> fst (VideoStore_load eng p w) = Inr video \<longrightarrow>
      fst (run eng (ConvertVideoFormat p n codec f br False) w) =
        Inr ((Envelope True)\<lparr>output_object := Some (Ref (new_ref (issued w)))\<rparr>) \<and>
      video_store (snd (run eng (ConvertVideoFormat p n codec f br False) w)) (new_ref (issued w)) = Some video \<and>
      filter is_write (new_calls w (snd (run eng (ConvertVideoFormat p n codec f br True) w))) =
        [EngineWrite video out (convert_kwargs codec f br)])"
  by (auto simp: convert_video_format_def convert_video_format_try_def prog_defs Let_def new_calls_def
        split: sum.splits prod.splits option.splits)

theorem convert_store_branch_keeps_clip_witness:
  "get_output_path test_engine ''c.mp4'' = Inr ''/out/c.mp4'' \<and>
   fst (VideoStore_load test_engine ''in.mp4'' empty_world) = Inr test_clip \<and>
   fst (run test_engine (ConvertVideoFormat ''in.mp4'' ''c.mp4'' ''libx264'' (Some 24) None False) empty_world) =
     Inr ((Envelope True)\<lparr>output_object := Some (Ref ''ref_0'')\<rparr>) \<and>
   video_store (snd (run test_engine (ConvertVideoFormat ''in.mp4'' ''c.mp4'' ''libx264'' (Some 24) None False) empty_world))
     ''ref_0'' = Some test_clip"
proof -
  have g: "get_output_path test_engine ''c.mp4'' = Inr ''/out/c.mp4''"
    by (simp add: test_engine_def)
  have l: "fst (VideoStore_load test_engine ''in.mp4'' empty_world) = Inr test_clip"
    by (simp add: VideoStore_load_def engine_call_def test_engine_def empty_world_def Let_def)
  have n: "new_ref (issued empty_world) = ''ref_0''"
    by (simp add: empty_world_def new_ref_def str_nat.simps digit_char_def)
  from convert_store_branch_keeps_clip[of test_engine "''in.mp4''" "''c.mp4''" "''libx264''" "Some 24" None
         empty_world "''libx264''" "Some 24" None "''/out/c.mp4''" test_clip] g l n
  show ?thesis by simp
qed










text \<open>
  C5 (as amended). \<^verbatim>\<open>split_video_at_times\<close> does not validate its times. Whatever
  they are, once the output path is resolved the first thing the tool does is read the
  object store for the input; once the input is resolved it asks the library for the
  subclip of each interval of \<^verbatim>\<open>[0] + times + [duration]\<close> in order, up to and
  including the first one the library refuses (so \<open>n + 1\<close> requests when none is
  refused, and at least one always), and makes no other subclip request; and a failure
  dictionary it returns never comes from a validation: the body of the \<^verbatim>\<open>try\<close>
  raised, and the dictionary carries \<^verbatim>\<open>error_type\<close>.
\<close>

theorem split_times_not_validated:
  "(get_output_path eng n = Inr out \<longrightarrow>
      take 1 (new_calls w (snd (run eng (SplitVideoAtTimes p ts n rp) w))) = [StoreLoad p]) \<and>
   (get_output_path eng n = Inr out \<and> fst (VideoStore_load eng p w) = Inr video \<longrightarrow>
      (\<exists>evs. calls (snd (run eng (SplitVideoAtTimes p ts n rp) w)) =
               calls (snd (VideoStore_load eng p w)) @
               replicate (min (length ts + 1)
                            (Suc (length (takeWhile (\<lambda>x. \<not> isl x) (interval_subclips eng video ts)))))
                         (EngineCall ''subclip'') @ evs \<and>
             EngineCall ''subclip'' \<notin> set evs)) \<and>
   (fst (run eng (SplitVideoAtTimes p ts n rp) w) = Inr env \<and> \<not> success env \<longrightarrow>
      error_type env \<noteq> None \<and> (\<exists>e. fst (try_block eng (SplitVideoAtTimes p ts n rp) w) = Inl e))"
proof -
  obtain r w' where t: "split_video_at_times_try eng p ts n rp w = (r, w')"
    by (cases "split_video_at_times_try eng p ts n rp w")
  from run_calls[of "SplitVideoAtTimes p ts n rp" eng w] t
  have cw: "calls (snd (run eng (SplitVideoAtTimes p ts n rp) w)) = calls w'" by simp
  have A: "take 1 (new_calls w (snd (run eng (SplitVideoAtTimes p ts n rp) w))) = [StoreLoad p]"
    if g: "get_output_path eng n = Inr out"
  proof -
    from split_try_reads_store[OF t g] obtain evs where "calls w' = calls w @ StoreLoad p # evs" ..
    with cw show ?thesis by (simp add: new_calls_def)
  qed
  have C: "\<exists>evs. calls (snd (run eng (SplitVideoAtTimes p ts n rp) w)) =
               calls (snd (VideoStore_load eng p w)) @
               replicate (min (length ts + 1)
                            (Suc (length (takeWhile (\<lambda>x. \<not> isl x) (interval_subclips eng video ts)))))
                         (EngineCall ''subclip'') @ evs \<and>
             EngineCall ''subclip'' \<notin> set evs"
    if g: "get_output_path eng n = Inr out \<and> fst (VideoStore_load eng p w) = Inr video"
  proof -
    from g have l: "VideoStore_load eng p w = (Inr video, snd (VideoStore_load eng p w))"
      by (metis prod.collapse)
    from split_try_subclip_calls[OF t _ l] g cw show ?thesis by simp
  qed
  have B: "error_type env \<noteq> None \<and> (\<exists>e. fst (try_block eng (SplitVideoAtTimes p ts n rp) w) = Inl e)"
    if a: "fst (run eng (SplitVideoAtTimes p ts n rp) w) = Inr env \<and> \<not> success env"
  proof (cases "fst (try_block eng (SplitVideoAtTimes p ts n rp) w)")
    case (Inl e)
    with a run_try_block[of eng "SplitVideoAtTimes p ts n rp" w] show ?thesis by auto
  next
    case (Inr env')
    with a run_try_block[of eng "SplitVideoAtTimes p ts n rp" w] have "env' = env" by simp
    moreover from Inr split_try_succeeds[of eng p ts n rp] have "success env'"
      by (cases "split_video_at_times_try eng p ts n rp w") (auto simp: returns_def)
    ultimately show ?thesis using a by simp
  qed
  from A B C show ?thesis by blast
qed

theorem split_times_not_validated_witness:
  "get_output_path test_engine ''parts'' = Inr ''/out/parts'' \<and>
   fst (VideoStore_load test_engine ''in.mp4'' empty_world) = Inr test_clip \<and>
   calls (snd (run test_engine (SplitVideoAtTimes ''in.mp4'' [Float 15] ''parts'' False) empty_world)) =
     [StoreLoad ''in.mp4'', EngineCall ''VideoFileClip'', EngineCall ''subclip'', EngineCall ''subclip''] \<and>
   fst (run test_engine (SplitVideoAtTimes ''in.mp4'' [Float 15] ''parts'' False) empty_world) =
     Inr ((Envelope False)\<lparr>error := Some ''t_start should be smaller than the duration of the clip'',
                             error_type := Some ''ValueError'',
                             message := Some ''Error splitting video at times''\<rparr>) \<and>
   error_type ((Envelope False)\<lparr>error := Some ''t_start should be smaller than the duration of the clip'',
                             error_type := Some ''ValueError'',
                             message := Some ''Error splitting video at times''\<rparr>) \<noteq> None"
proof -
  let ?c = "SplitVideoAtTimes ''in.mp4'' [Float 15] ''parts'' False"
  let ?E = "(Envelope False)\<lparr>error := Some ''t_start should be smaller than the duration of the clip'',
                             error_type := Some ''ValueError'',
                             message := Some ''Error splitting video at times''\<rparr>"
  have g: "get_output_path test_engine ''parts'' = Inr ''/out/parts''"
    by (simp add: test_engine_def)
  have l: "fst (VideoStore_load test_engine ''in.mp4'' empty_world) = Inr test_clip"
    by (simp add: VideoStore_load_def engine_call_def test_engine_def empty_world_def Let_def)
  have r: "fst (run test_engine ?c empty_world) = Inr ?E"
    by (simp add: split_video_at_times_def split_video_at_times_try_def prog_defs test_engine_def
          empty_world_def fixture_subclip_def test_clip_def Let_def)
  have s: "\<not> success ?E" by (simp add: Envelope_def)
  from split_times_not_validated[of test_engine "''parts''" "''/out/parts''" empty_world
         "''in.mp4''" "[Float 15]" False test_clip ?E] g l r s
  obtain evs where
    e: "calls (snd (run test_engine ?c empty_world)) =
          calls (snd (VideoStore_load test_engine ''in.mp4'' empty_world)) @
          replicate (min (length [Float 15] + 1)
                       (Suc (length (takeWhile (\<lambda>x. \<not> isl x) (interval_subclips test_engine test_clip [Float 15])))))
                    (EngineCall ''subclip'') @ evs"
    and t1: "take 1 (new_calls empty_world (snd (run test_engine ?c empty_world))) = [StoreLoad ''in.mp4'']"
    and et: "error_type ?E \<noteq> None"
    by blast
  have "calls (snd (run test_engine ?c empty_world)) =
     [StoreLoad ''in.mp4'', EngineCall ''VideoFileClip'', EngineCall ''subclip'', EngineCall ''subclip'']"
    by (simp add: split_video_at_times_def split_video_at_times_try_def prog_defs test_engine_def
          empty_world_def fixture_subclip_def test_clip_def Let_def)
  with g l r et show ?thesis by blast
qed

text \<open>
  C5 as stated fails: with the time \<open>-5\<close>, outside \<open>(0, 10)\<close>, the tool reads the store,
  opens the file, cuts twice and registers two clips, and it reports success.
\<close>

theorem split_outside_times_runs:
  "\<not> split_times_within [Float (- 5)] (clip_duration test_clip) \<and>
   fst (run test_engine (SplitVideoAtTimes ''in.mp4'' [Float (- 5)] ''parts'' False) empty_world) =
     Inr ((Envelope True)\<lparr>output_objects := Some [''ref_0'', ''ref_1'']\<rparr>) \<and>
   take 4 (calls (snd (run test_engine (SplitVideoAtTimes ''in.mp4'' [Float (- 5)] ''parts'' False) empty_world))) =
     [StoreLoad ''in.mp4'', EngineCall ''VideoFileClip'', EngineCall ''subclip'', EngineCall ''subclip''] \<and>
   issued (snd (run test_engine (SplitVideoAtTimes ''in.mp4'' [Float (- 5)] ''parts'' False) empty_world)) = 2"
  by (simp add: split_times_within_def test_clip_def split_video_at_times_def
        split_video_at_times_try_def prog_defs test_engine_def empty_world_def Let_def
        fixture_subclip_def new_ref_def str_nat.simps digit_char_def)

end
